theory Spec2Isabelle
  imports Complex_Main
begin

section \<open>Plain objects read with a string key\<close>

text \<open>
  The tables of the services (\<^verbatim>\<open>repThresholds\<close>, \<^verbatim>\<open>exercisePatterns\<close>, \<^verbatim>\<open>analysisMap\<close>) are
  object literals, and \<^verbatim>\<open>table[key]\<close> finds a property of the table itself or, failing
  that, a property the table inherits from \<^verbatim>\<open>Object.prototype\<close>. These are the names
  \<^verbatim>\<open>Object.prototype\<close> has in the engines the application runs on.
\<close>

definition object_prototype_names :: "string list" where
  "object_prototype_names =
     [''constructor'', ''__defineGetter__'', ''__defineSetter__'', ''hasOwnProperty'',
      ''__lookupGetter__'', ''__lookupSetter__'', ''isPrototypeOf'', ''propertyIsEnumerable'',
      ''toString'', ''valueOf'', ''__proto__'', ''toLocaleString'']"

text \<open>
  What a lookup finds: a value of the table, or the inherited member of that name (a
  built-in function, or \<^verbatim>\<open>Object.prototype\<close> itself under \<^verbatim>\<open>__proto__\<close>). Both are truthy.
\<close>

datatype 'c member = Own 'c | Inherited string

text \<open>\<^verbatim>\<open>table[key]\<close>; \<open>None\<close> is undefined. An own property shadows an inherited one.\<close>

definition js_get :: "(string \<times> 'c) list \<Rightarrow> string \<Rightarrow> 'c member option" where
  "js_get table key =
     (case map_of table key of
        Some v \<Rightarrow> Some (Own v)
      | None \<Rightarrow> if key \<in> set object_prototype_names then Some (Inherited key) else None)"

text \<open>
  \<^verbatim>\<open>entry.field\<close> for a field that only the values of a table have: an inherited member
  has no such property, and the read is undefined (\<open>None\<close>).
\<close>

fun read_prop :: "('c \<Rightarrow> 'a) \<Rightarrow> 'c member \<Rightarrow> 'a option" where
  "read_prop field (Own c) = Some (field c)"
| "read_prop field (Inherited name) = None"

text \<open>
  A key that behaves as a plain dictionary key on an object that starts empty: it is
  not the name of an inherited property, and it is not written with digits only (keys
  that are array indices are listed before all other keys, whatever the insertion order).
\<close>

definition plain_key :: "string \<Rightarrow> bool" where
  "plain_key key \<longleftrightarrow>
     key \<notin> set object_prototype_names
     \<and> \<not> (key \<noteq> [] \<and> list_all (\<lambda>c. c \<in> set ''0123456789'') key)"

section \<open>Parallel frame orchestrator (analyzeVideo, batching and reassembly)\<close>













section \<open>Aggregation and scoring (analyzeVideo, after the frames are analysed)\<close>

text \<open>
  JavaScript numbers are modelled as real numbers wherever only finite values occur.
  For the quotients \<open>count / frames\<close> compared with the literals \<open>0.15\<close> \<dots> \<open>0.30\<close> the
  comparison of the doubles agrees with the comparison of the exact rationals for every
  number of frames a video can have.

  An error as \<^verbatim>\<open>validateForm\<close> pushes it: \<^verbatim>\<open>{ id, name, severity, description, correction,
  affectedJoints }\<close>. The descriptive fields are not read by the aggregation.
\<close>

record form_error =
  err_id :: string
  err_name :: string
  severity :: string

text \<open>
  An element of \<^verbatim>\<open>validFrameResults\<close>: \<^verbatim>\<open>{ time, frameIndex, errors, landmarks, dataUrl,
  ...result.analysis }\<close>. \<^verbatim>\<open>landmarks\<close> is the detector's array, or null (\<open>None\<close>); an
  element of the array that is missing is \<open>None\<close>. A landmark is \<^verbatim>\<open>{ x, y, z, visibility }\<close>,
  with \<^verbatim>\<open>visibility\<close> possibly undefined (\<open>None\<close>). The number type is a parameter:
  the rep counter works on finite values, the geometry kernel is also studied on
  non-finite ones.
\<close>

record 'n landmark =
  lx :: 'n
  ly :: 'n
  visibility :: "'n option"

record analyzed_frame =
  time :: real
  frameIndex :: nat
  errors :: "form_error list"
  landmarks :: "real landmark option list option"
  features :: "(string \<times> real option) list"

text \<open>
  \<^verbatim>\<open>errorCounts[error.id] = { ...error, count, frames }\<close>: the first error seen under an id,
  the number of occurrences, and the times of the frames it occurred in.
\<close>

record error_count =
  first_error :: form_error
  count :: nat
  frame_times :: "real list"

text \<open>
  \<^verbatim>\<open>errorCounts\<close> is a plain object used as a dictionary. \<^verbatim>\<open>Object.values\<close> lists its
  entries in insertion order (the ids of the catalog are names such as \<^verbatim>\<open>knee_valgus\<close>,
  never array indices and never names inherited from \<^verbatim>\<open>Object.prototype\<close>), so it is an
  association list with new keys appended. This is the dictionary for keys that satisfy
  \<open>plain_key\<close>.
  \<^verbatim>\<open>if (!errorCounts[error.id]) errorCounts[error.id] = { ...error, count: 0, frames: [] };
  errorCounts[error.id].count++; errorCounts[error.id].frames.push(frame.time)\<close>
\<close>

fun record_error ::
  "real \<Rightarrow> form_error \<Rightarrow> (string \<times> error_count) list \<Rightarrow> (string \<times> error_count) list" where
  "record_error t e [] = [(err_id e, \<lparr>first_error = e, count = 1, frame_times = [t]\<rparr>)]"
| "record_error t e ((k, c) # rest) =
     (if k = err_id e
      then (k, c\<lparr>count := count c + 1, frame_times := frame_times c @ [t]\<rparr>) # rest
      else (k, c) # record_error t e rest)"

definition errorCounts :: "analyzed_frame list \<Rightarrow> (string \<times> error_count) list" where
  "errorCounts validFrameResults =
     fold (\<lambda>fr acc. fold (record_error (time fr)) (errors fr) acc) validFrameResults []"

text \<open>The entry extended by \<^verbatim>\<open>.map(err => ({ ...err, frequency, thresholdFrequency }))\<close>.\<close>

record significant_error = error_count +
  frequency :: real
  thresholdFrequency :: real

definition severity_threshold :: "string \<Rightarrow> real" where
  "severity_threshold sev =
     (if sev = ''critical'' then 0.15
      else if sev = ''high'' then 0.20
      else if sev = ''medium'' then 0.25
      else 0.30)"

definition with_frequency :: "nat \<Rightarrow> error_count \<Rightarrow> significant_error" where
  "with_frequency n c =
     \<lparr>first_error = first_error c, count = count c, frame_times = frame_times c,
      frequency = real (count c) / real n,
      thresholdFrequency = severity_threshold (severity (first_error c))\<rparr>"

text \<open>
  \<^verbatim>\<open>severityOrder = { critical: 4, high: 3, medium: 2, low: 1 }\<close>, read with \<^verbatim>\<open>|| 0\<close>, for a
  severity that is not the name of an inherited property.
\<close>

definition severityOrder :: "string \<Rightarrow> int" where
  "severityOrder sev =
     (if sev = ''critical'' then 4
      else if sev = ''high'' then 3
      else if sev = ''medium'' then 2
      else if sev = ''low'' then 1
      else 0)"

text \<open>
  \<^verbatim>\<open>.sort((a, b) => order(b) - order(a))\<close>: \<^verbatim>\<open>Array.prototype.sort\<close> is a stable sort, here
  by descending severity order, that is by ascending \<open>- order\<close>; \<open>sort_key\<close> is the
  stable insertion sort of the list library.
\<close>

definition sort_by_severity :: "significant_error list \<Rightarrow> significant_error list" where
  "sort_by_severity es = sort_key (\<lambda>e. - severityOrder (severity (first_error e))) es"

definition significantErrors :: "analyzed_frame list \<Rightarrow> significant_error list" where
  "significantErrors validFrameResults =
     (if length validFrameResults > 0
      then sort_by_severity
             (filter (\<lambda>err. frequency err \<ge> thresholdFrequency err)
                (map (with_frequency (length validFrameResults))
                   (map snd (errorCounts validFrameResults))))
      else [])"

text \<open>
  \<^verbatim>\<open>baseScore = Math.max(0, Math.min(100, 100 - significantErrors.length * 15))\<close> when there
  are frames, else \<open>0\<close>.
\<close>

definition baseScore :: "analyzed_frame list \<Rightarrow> int" where
  "baseScore validFrameResults =
     (if length validFrameResults > 0
      then max 0 (min 100 (100 - int (length (significantErrors validFrameResults)) * 15))
      else 0)"

text \<open>\<^verbatim>\<open>Math.round(v)\<close> is \<open>\<lfloor>v + 1/2\<rfloor>\<close>: halves go up.\<close>

definition Math_round :: "real \<Rightarrow> int" where
  "Math_round v = \<lfloor>v + 1 / 2\<rfloor>"

text \<open>
  \<^verbatim>\<open>score = Math.round(baseScore * completenessMultiplier)\<close>, the multiplier being the
  \<^verbatim>\<open>confidence\<close> of the adaptive report.
\<close>

definition score :: "analyzed_frame list \<Rightarrow> real \<Rightarrow> int" where
  "score validFrameResults completenessMultiplier =
     Math_round (real_of_int (baseScore validFrameResults) * completenessMultiplier)"

text \<open>The specification's clamp, for comparison with the \<open>max\<close>/\<open>min\<close> of the source.\<close>

definition spec_clamp :: "int \<Rightarrow> int \<Rightarrow> int \<Rightarrow> int" where
  "spec_clamp v lo hi = (if v < lo then lo else if hi < v then hi else v)"

text \<open>Occurrences of an id among all errors of all frames.\<close>

definition occurrences :: "string \<Rightarrow> analyzed_frame list \<Rightarrow> nat" where
  "occurrences i fs = length (filter (\<lambda>e. err_id e = i) (concat (map errors fs)))"

text \<open>The count stored under an id in the dictionary, \<open>0\<close> if the id is absent.\<close>

definition count_of :: "(string \<times> error_count) list \<Rightarrow> string \<Rightarrow> nat" where
  "count_of acc i = (case map_of acc i of None \<Rightarrow> 0 | Some c \<Rightarrow> count c)"

text \<open>Invariant of the dictionary: keys are distinct and each key is the id of its entry.\<close>

definition dict_ok :: "(string \<times> error_count) list \<Rightarrow> bool" where
  "dict_ok acc \<longleftrightarrow> distinct (map fst acc) \<and> (\<forall>(k, c) \<in> set acc. k = err_id (first_error c))"

text \<open>
  Errors as \<^verbatim>\<open>validateForm\<close> copies them from the checks of the catalog: every id is a
  plain key, and no severity is the name of a property inherited from
  \<^verbatim>\<open>Object.prototype\<close>.
\<close>

definition catalog_errors :: "analyzed_frame list \<Rightarrow> bool" where
  "catalog_errors fs \<longleftrightarrow>
     list_all (\<lambda>e. plain_key (err_id e) \<and> severity e \<notin> set object_prototype_names)
       (concat (map errors fs))"

text \<open>The distinct elements of a list, each at the place of its first occurrence.\<close>

definition first_occurrences :: "'a list \<Rightarrow> 'a list" where
  "first_occurrences xs = rev (remdups (rev xs))"

text \<open>
  The dictionary after the errors \<open>seen\<close>: its keys are the ids seen, in the order of
  their first occurrence, and each entry holds the first error seen under its key.
\<close>

definition merged :: "form_error list \<Rightarrow> (string \<times> error_count) list \<Rightarrow> bool" where
  "merged seen acc \<longleftrightarrow>
     map fst acc = first_occurrences (map err_id seen)
     \<and> (\<forall>(k, c) \<in> set acc. find (\<lambda>e. err_id e = k) seen = Some (first_error c))"

text \<open>
  The order of severities in the specification, critical > high > medium > low:
  \<open>spec_outranks a b\<close> when \<open>a\<close> is the more severe of the two.
\<close>

definition spec_outranks :: "string \<Rightarrow> string \<Rightarrow> bool" where
  "spec_outranks a b \<longleftrightarrow>
     (a, b) \<in> set [(''critical'', ''high''), (''critical'', ''medium''), (''critical'', ''low''),
                   (''high'', ''medium''), (''high'', ''low''), (''medium'', ''low'')]"

text \<open>
  A run of twenty analysed frames for the worked examples: six rules fire on the first
  three to six frames, inserted in the order low, medium, high, critical, medium, high.
\<close>

definition mk_error :: "string \<Rightarrow> string \<Rightarrow> form_error" where
  "mk_error i sev = \<lparr>err_id = i, err_name = i, severity = sev\<rparr>"

definition agg_example :: "analyzed_frame list" where
  "agg_example = map (\<lambda>i. \<lparr>time = real i / 10, frameIndex = i,
       errors = (if i < 5 then [mk_error ''knee_forward_travel'' ''low''] else [])
              @ (if i < 5 then [mk_error ''shallow_depth'' ''medium''] else [])
              @ (if i < 3 then [mk_error ''heel_lift'' ''high''] else [])
              @ (if i < 3 then [mk_error ''back_rounding_squat'' ''critical''] else [])
              @ (if i < 6 then [mk_error ''excessive_lean'' ''medium''] else [])
              @ (if i < 4 then [mk_error ''knee_valgus'' ''high''] else []),
       landmarks = None, features = []\<rparr>) [0..<20]"

section \<open>Geometry kernel (calculateAngle)\<close>

text \<open>
  Where a value may be non-finite, a JavaScript number is a finite real, an infinity or
  NaN. The two zeros of the doubles are identified, and finite arithmetic is exact.
\<close>

datatype jsnum = Fin real | PosInf | NegInf | NaN

text \<open>The errors a function of the source can raise.\<close>

datatype js_error = TypeError

text \<open>\<^verbatim>\<open>a - b\<close>\<close>

fun js_sub :: "jsnum \<Rightarrow> jsnum \<Rightarrow> jsnum" where
  "js_sub NaN _ = NaN"
| "js_sub _ NaN = NaN"
| "js_sub (Fin u) (Fin v) = Fin (u - v)"
| "js_sub (Fin u) PosInf = NegInf"
| "js_sub (Fin u) NegInf = PosInf"
| "js_sub PosInf PosInf = NaN"
| "js_sub PosInf _ = PosInf"
| "js_sub NegInf NegInf = NaN"
| "js_sub NegInf _ = NegInf"

text \<open>\<^verbatim>\<open>a * b\<close>\<close>

fun js_mul :: "jsnum \<Rightarrow> jsnum \<Rightarrow> jsnum" where
  "js_mul NaN _ = NaN"
| "js_mul _ NaN = NaN"
| "js_mul (Fin u) (Fin v) = Fin (u * v)"
| "js_mul (Fin u) PosInf = (if u = 0 then NaN else if 0 < u then PosInf else NegInf)"
| "js_mul (Fin u) NegInf = (if u = 0 then NaN else if 0 < u then NegInf else PosInf)"
| "js_mul PosInf (Fin v) = (if v = 0 then NaN else if 0 < v then PosInf else NegInf)"
| "js_mul NegInf (Fin v) = (if v = 0 then NaN else if 0 < v then NegInf else PosInf)"
| "js_mul PosInf PosInf = PosInf"
| "js_mul PosInf NegInf = NegInf"
| "js_mul NegInf PosInf = NegInf"
| "js_mul NegInf NegInf = PosInf"

text \<open>\<^verbatim>\<open>a / b\<close>, a zero divisor being the positive zero.\<close>

fun js_div :: "jsnum \<Rightarrow> jsnum \<Rightarrow> jsnum" where
  "js_div NaN _ = NaN"
| "js_div _ NaN = NaN"
| "js_div (Fin u) (Fin v) =
     (if v = 0 then (if u = 0 then NaN else if 0 < u then PosInf else NegInf)
      else Fin (u / v))"
| "js_div (Fin u) _ = Fin 0"
| "js_div PosInf (Fin v) = (if 0 \<le> v then PosInf else NegInf)"
| "js_div NegInf (Fin v) = (if 0 \<le> v then NegInf else PosInf)"
| "js_div _ _ = NaN"

text \<open>\<^verbatim>\<open>Math.abs\<close>\<close>

fun js_abs :: "jsnum \<Rightarrow> jsnum" where
  "js_abs NaN = NaN"
| "js_abs (Fin u) = Fin \<bar>u\<bar>"
| "js_abs _ = PosInf"

text \<open>\<^verbatim>\<open>a > b\<close>: false whenever an operand is NaN.\<close>

fun js_gt :: "jsnum \<Rightarrow> jsnum \<Rightarrow> bool" where
  "js_gt NaN _ = False"
| "js_gt _ NaN = False"
| "js_gt (Fin u) (Fin v) = (v < u)"
| "js_gt PosInf PosInf = False"
| "js_gt PosInf _ = True"
| "js_gt _ PosInf = False"
| "js_gt NegInf _ = False"
| "js_gt (Fin u) NegInf = True"

text \<open>
  \<^verbatim>\<open>Math.atan2(y, x)\<close> on finite arguments: the angle of the point \<open>(x, y)\<close> in
  \<open>(-\<pi>, \<pi>]\<close>, and \<open>0\<close> at the origin.
\<close>

definition atan2 :: "real \<Rightarrow> real \<Rightarrow> real" where
  "atan2 y x =
     (if 0 < x then arctan (y / x)
      else if x < 0 then (if 0 \<le> y then arctan (y / x) + pi else arctan (y / x) - pi)
      else if 0 < y then pi / 2
      else if y < 0 then - (pi / 2)
      else 0)"

text \<open>\<^verbatim>\<open>Math.atan2\<close> on all numbers, with the values the language fixes at the infinities.\<close>

fun js_atan2 :: "jsnum \<Rightarrow> jsnum \<Rightarrow> jsnum" where
  "js_atan2 NaN _ = NaN"
| "js_atan2 _ NaN = NaN"
| "js_atan2 (Fin v) (Fin u) = Fin (atan2 v u)"
| "js_atan2 (Fin v) PosInf = Fin 0"
| "js_atan2 (Fin v) NegInf = (if 0 \<le> v then Fin pi else Fin (- pi))"
| "js_atan2 PosInf (Fin u) = Fin (pi / 2)"
| "js_atan2 NegInf (Fin u) = Fin (- (pi / 2))"
| "js_atan2 PosInf PosInf = Fin (pi / 4)"
| "js_atan2 PosInf NegInf = Fin (3 * pi / 4)"
| "js_atan2 NegInf PosInf = Fin (- (pi / 4))"
| "js_atan2 NegInf NegInf = Fin (- (3 * pi / 4))"

text \<open>\<^verbatim>\<open>Number.isFinite\<close>\<close>

fun Number_isFinite :: "jsnum \<Rightarrow> bool" where
  "Number_isFinite (Fin u) = True"
| "Number_isFinite _ = False"

text \<open>
  \<^verbatim>\<open>isUsableLandmark(landmark) = !!landmark && Number.isFinite(landmark.x) &&
  Number.isFinite(landmark.y)\<close>; a null or undefined landmark is \<open>None\<close>.
\<close>

fun isUsableLandmark :: "jsnum landmark option \<Rightarrow> bool" where
  "isUsableLandmark None = False"
| "isUsableLandmark (Some l) = (Number_isFinite (lx l) \<and> Number_isFinite (ly l))"

text \<open>
  Reading \<^verbatim>\<open>p.x\<close> and \<^verbatim>\<open>p.y\<close>: a TypeError when \<open>p\<close> is null or undefined. The
  continuation receives the two coordinates.
\<close>

fun read_xy :: "'n landmark option \<Rightarrow> ('n \<Rightarrow> 'n \<Rightarrow> js_error + 'a) \<Rightarrow> js_error + 'a" where
  "read_xy None k = Inl TypeError"
| "read_xy (Some l) k = k (lx l) (ly l)"

text \<open>
  PoseAnalysisService:
  \<^verbatim>\<open>calculateAngle(a, b, c) {
    if (!a || !b || !c) return 0;
    const radians = Math.atan2(c.y - b.y, c.x - b.x) - Math.atan2(a.y - b.y, a.x - b.x);
    let angle = Math.abs(radians * 180.0 / Math.PI);
    if (angle > 180.0) angle = 360 - angle;
    return angle; }\<close>
\<close>

definition calculateAngle ::
  "jsnum landmark option \<Rightarrow> jsnum landmark option \<Rightarrow> jsnum landmark option \<Rightarrow> js_error + jsnum" where
  "calculateAngle a b c =
     (if a = None \<or> b = None \<or> c = None then Inr (Fin 0)
      else
        read_xy a (\<lambda>ax ay. read_xy b (\<lambda>bx by. read_xy c (\<lambda>cx cy.
          let radians = js_sub (js_atan2 (js_sub cy by) (js_sub cx bx))
                               (js_atan2 (js_sub ay by) (js_sub ax bx));
              angle = js_abs (js_div (js_mul radians (Fin 180)) (Fin pi))
          in Inr (if js_gt angle (Fin 180) then js_sub (Fin 360) angle else angle)))))"

text \<open>
  RepCountingService has its own copy, which answers 180 for a missing point. The rep
  counter works on finite coordinates, so this copy is written over the reals.
  \<^verbatim>\<open>calculateAngle(a, b, c) {
    if (!a || !b || !c) return 180;
    ... }\<close>
\<close>

definition rc_calculateAngle ::
  "real landmark option \<Rightarrow> real landmark option \<Rightarrow> real landmark option \<Rightarrow> js_error + real" where
  "rc_calculateAngle a b c =
     (if a = None \<or> b = None \<or> c = None then Inr 180
      else
        read_xy a (\<lambda>ax ay. read_xy b (\<lambda>bx by. read_xy c (\<lambda>cx cy.
          let radians = atan2 (cy - by) (cx - bx) - atan2 (ay - by) (ax - bx);
              angle = \<bar>radians * 180 / pi\<bar>
          in Inr (if angle > 180 then 360 - angle else angle)))))"

text \<open>Points for the worked examples.\<close>

definition pt :: "'n \<Rightarrow> 'n \<Rightarrow> 'n landmark option" where
  "pt u v = Some \<lparr>lx = u, ly = v, visibility = None\<rparr>"

section \<open>Repetition quality: smoothness (RepProgressionService.calculateSmoothness)\<close>

text \<open>
  A point of the metric progression built by \<^verbatim>\<open>extractMetricProgression\<close>:
  \<^verbatim>\<open>{ index, time, value, frame }\<close>, with \<^verbatim>\<open>value\<close> a number or null (\<open>None\<close>).
\<close>

record progression_point =
  pp_index :: nat
  pp_time :: real
  pp_value :: "real option"

text \<open>The number a value stands for in arithmetic: null converts to \<open>0\<close>.\<close>

fun to_number :: "real option \<Rightarrow> real" where
  "to_number None = 0"
| "to_number (Some v) = v"

text \<open>
  \<^verbatim>\<open>for (let i = 1; i < validPoints.length; i++)
    velocities.push(validPoints[i].value - validPoints[i - 1].value)\<close>
\<close>

definition velocities_of :: "progression_point list \<Rightarrow> real list" where
  "velocities_of validPoints =
     map (\<lambda>i. to_number (pp_value (validPoints ! i)) - to_number (pp_value (validPoints ! (i - 1))))
       [1..<length validPoints]"

text \<open>
  \<^verbatim>\<open>for (let i = 1; i < velocities.length; i++)
    totalAcceleration += Math.abs(velocities[i] - velocities[i - 1])\<close>
\<close>

definition totalAcceleration :: "real list \<Rightarrow> real" where
  "totalAcceleration velocities =
     sum_list (map (\<lambda>i. \<bar>velocities ! i - velocities ! (i - 1)\<bar>) [1..<length velocities])"

text \<open>
  \<^verbatim>\<open>calculateSmoothness(metricProgression) {
    const validPoints = metricProgression.filter(p => p.value !== null);
    if (validPoints.length < 3) return 100;
    ...
    const avgAcceleration = totalAcceleration / velocities.length;
    const smoothness = Math.max(0, 100 - avgAcceleration * 5);
    return Math.round(smoothness); }\<close>
\<close>

definition calculateSmoothness :: "progression_point list \<Rightarrow> int" where
  "calculateSmoothness metricProgression =
     (let validPoints = filter (\<lambda>p. pp_value p \<noteq> None) metricProgression in
      if length validPoints < 3 then 100
      else
        let velocities = velocities_of validPoints;
            avgAcceleration = totalAcceleration velocities / real (length velocities);
            smoothness = max 0 (100 - avgAcceleration * 5)
        in Math_round smoothness)"

text \<open>
  The specification's reading: the values of the valid points, their second differences
  (jerk), the mean of the absolute jerk, and \<open>100 - 5 \<times> mean\<close> clamped to \<open>[0, 100]\<close>.
\<close>

definition valid_values :: "progression_point list \<Rightarrow> real list" where
  "valid_values metricProgression = List.map_filter pp_value metricProgression"

definition spec_jerk :: "real list \<Rightarrow> real list" where
  "spec_jerk vs = map (\<lambda>i. vs ! (i + 2) - 2 * vs ! (i + 1) + vs ! i) [0..<length vs - 2]"

definition spec_meanAbsoluteJerk :: "real list \<Rightarrow> real" where
  "spec_meanAbsoluteJerk vs = sum_list (map abs (spec_jerk vs)) / real (length (spec_jerk vs))"

definition spec_smoothness :: "progression_point list \<Rightarrow> real" where
  "spec_smoothness metricProgression =
     (if length (valid_values metricProgression) < 3 then 100
      else max 0 (min 100 (100 - 5 * spec_meanAbsoluteJerk (valid_values metricProgression))))"

text \<open>A progression from a list of values, for the worked examples.\<close>

definition progression :: "real option list \<Rightarrow> progression_point list" where
  "progression vs = map (\<lambda>(i, v). \<lparr>pp_index = i, pp_time = real i / 10, pp_value = v\<rparr>) (enumerate 0 vs)"

section \<open>Repetition counter (RepCountingService)\<close>

text \<open>
  An entry of \<^verbatim>\<open>this.repThresholds\<close>: \<^verbatim>\<open>{ metric, fallbackMetric, threshold, direction }\<close>.
\<close>

record rep_config =
  cfg_metric :: string
  fallbackMetric :: string
  cfg_threshold :: real
  direction :: string

text \<open>\<^verbatim>\<open>this.repThresholds[exerciseId]\<close>\<close>

definition repThresholds :: "string \<Rightarrow> rep_config member option" where
  "repThresholds = js_get
     [(''squat'', \<lparr>cfg_metric = ''hipHeight'', fallbackMetric = ''kneeAngle'',
                   cfg_threshold = 0.08, direction = ''down''\<rparr>),
      (''deadlift'', \<lparr>cfg_metric = ''hipHeight'', fallbackMetric = ''kneeAngle'',
                      cfg_threshold = 0.10, direction = ''down''\<rparr>),
      (''overhead_press'', \<lparr>cfg_metric = ''wristHeight'', fallbackMetric = ''shoulderHeight'',
                            cfg_threshold = 0.12, direction = ''up''\<rparr>),
      (''bench_press'', \<lparr>cfg_metric = ''wristHeight'', fallbackMetric = ''elbowHeight'',
                         cfg_threshold = 0.10, direction = ''down''\<rparr>),
      (''pull_up'', \<lparr>cfg_metric = ''shoulderHeight'', fallbackMetric = ''chinHeight'',
                     cfg_threshold = 0.15, direction = ''up''\<rparr>)]"

text \<open>A point of the metric series, \<^verbatim>\<open>{ index, time, value }\<close>, the value a number or null.\<close>

record metric_point =
  mp_index :: nat
  mp_time :: real
  mp_value :: "real option"

text \<open>A detected extremum, \<^verbatim>\<open>{ index, time, value }\<close>.\<close>

record extremum =
  ex_index :: nat
  ex_time :: real
  ex_value :: real

text \<open>
  A repetition, \<^verbatim>\<open>{ startIndex, bottomIndex, endIndex, startTime, bottomTime, endTime,
  duration, rangeOfMotion }\<close> for direction \<^verbatim>\<open>down\<close>, with \<^verbatim>\<open>topIndex\<close> and \<^verbatim>\<open>topTime\<close> in
  place of the two \<^verbatim>\<open>bottom\<close> properties otherwise; \<open>turn\<close> is that prefix.
\<close>

record rep_range =
  startIndex :: nat
  turnIndex :: nat
  endIndex :: nat
  startTime :: real
  turnTime :: real
  endTime :: real
  duration :: real
  rangeOfMotion :: real
  turn :: string

text \<open>
  The result of \<^verbatim>\<open>countReps\<close>. The early returns build
  \<^verbatim>\<open>{ count: 0, repRanges: [], metricData: [] }\<close>, without the two extremum lists.
\<close>

record rep_result =
  rr_count :: nat
  repRanges :: "rep_range list"
  peakFrames :: "extremum list option"
  valleyFrames :: "extremum list option"
  metricData :: "metric_point list"

definition zero_result :: rep_result where
  "zero_result = \<lparr>rr_count = 0, repRanges = [], peakFrames = None, valleyFrames = None,
                   metricData = []\<rparr>"

text \<open>Mapping a function that may raise over a list: the first error ends the loop.\<close>

fun map_err :: "('a \<Rightarrow> js_error + 'b) \<Rightarrow> 'a list \<Rightarrow> js_error + 'b list" where
  "map_err f [] = Inr []"
| "map_err f (x # xs) =
     (case f x of
        Inl e \<Rightarrow> Inl e
      | Inr y \<Rightarrow> (case map_err f xs of Inl e \<Rightarrow> Inl e | Inr ys \<Rightarrow> Inr (y # ys)))"

text \<open>\<^verbatim>\<open>p?.visibility > 0.3\<close>: false for a missing point and for an undefined visibility.\<close>

fun visible_03 :: "real landmark option \<Rightarrow> bool" where
  "visible_03 None = False"
| "visible_03 (Some p) = (case visibility p of None \<Rightarrow> False | Some v \<Rightarrow> v > 0.3)"

text \<open>
  \<^verbatim>\<open>if (p?.visibility > 0.3 && q?.visibility > 0.3) value = (p.y + q.y) / 2\<close>
\<close>

fun pair_height :: "real landmark option \<Rightarrow> real landmark option \<Rightarrow> real option" where
  "pair_height (Some p) (Some q) =
     (if visible_03 (Some p) \<and> visible_03 (Some q) then Some ((ly p + ly q) / 2) else None)"
| "pair_height _ _ = None"

text \<open>
  The \<^verbatim>\<open>switch (metricType)\<close> of \<^verbatim>\<open>extractMetric\<close>, on an array of at least 33 landmarks.
  The metric type is a property of the configuration entry, a string or undefined
  (\<open>None\<close>, which matches no case).
\<close>

definition metric_value ::
  "string option \<Rightarrow> real landmark option list \<Rightarrow> js_error + real option" where
  "metric_value metricType ls =
     (if metricType = Some ''hipHeight'' then Inr (pair_height (ls ! 23) (ls ! 24))
      else if metricType = Some ''wristHeight'' then Inr (pair_height (ls ! 15) (ls ! 16))
      else if metricType = Some ''shoulderHeight'' then Inr (pair_height (ls ! 11) (ls ! 12))
      else if metricType = Some ''elbowHeight'' then Inr (pair_height (ls ! 13) (ls ! 14))
      else if metricType = Some ''chinHeight'' then
        Inr (case ls ! 0 of
               None \<Rightarrow> None
             | Some p \<Rightarrow> if visible_03 (Some p) then Some (ly p) else None)
      else if metricType = Some ''kneeAngle'' then
        (if ls ! 23 \<noteq> None \<and> ls ! 25 \<noteq> None \<and> ls ! 27 \<noteq> None
         then (case rc_calculateAngle (ls ! 23) (ls ! 25) (ls ! 27) of
                 Inl e \<Rightarrow> Inl e
               | Inr angle \<Rightarrow> Inr (Some (angle / 180)))
         else Inr None)
      else Inr None)"

text \<open>
  \<^verbatim>\<open>extractMetric(frames, metricType)\<close>: one point per frame; null when the frame has no
  landmark array or fewer than 33 landmarks.
\<close>

definition extractMetric ::
  "analyzed_frame list \<Rightarrow> string option \<Rightarrow> js_error + metric_point list" where
  "extractMetric frames metricType =
     map_err (\<lambda>(i, fr).
        case landmarks fr of
          None \<Rightarrow> Inr \<lparr>mp_index = i, mp_time = time fr, mp_value = None\<rparr>
        | Some ls \<Rightarrow>
            if length ls < 33 then Inr \<lparr>mp_index = i, mp_time = time fr, mp_value = None\<rparr>
            else (case metric_value metricType ls of
                    Inl e \<Rightarrow> Inl e
                  | Inr v \<Rightarrow> Inr \<lparr>mp_index = i, mp_time = time fr, mp_value = v\<rparr>))
       (enumerate 0 frames)"

text \<open>
  \<^verbatim>\<open>smoothData(data, windowSize)\<close>: the mean over the window
  \<^verbatim>\<open>max(0, i - halfWindow) .. min(data.length - 1, i + halfWindow)\<close>.
\<close>

definition smoothData :: "real list \<Rightarrow> nat \<Rightarrow> real list" where
  "smoothData data windowSize =
     (let halfWindow = windowSize div 2 in
      map (\<lambda>i. let js = [i - halfWindow..<Suc (min (length data - 1) (i + halfWindow))]
               in sum_list (map (\<lambda>j. data ! j) js) / real (length js))
        [0..<length data])"

definition isLocalMax :: "real list \<Rightarrow> nat \<Rightarrow> bool" where
  "isLocalMax smoothed i \<longleftrightarrow>
     smoothed ! i > smoothed ! (i - 1) \<and> smoothed ! i > smoothed ! (i + 1) \<and>
     smoothed ! i \<ge> smoothed ! (i - 2) \<and> smoothed ! i \<ge> smoothed ! (i + 2)"

definition isLocalMin :: "real list \<Rightarrow> nat \<Rightarrow> bool" where
  "isLocalMin smoothed i \<longleftrightarrow>
     smoothed ! i < smoothed ! (i - 1) \<and> smoothed ! i < smoothed ! (i + 1) \<and>
     smoothed ! i \<le> smoothed ! (i - 2) \<and> smoothed ! i \<le> smoothed ! (i + 2)"

text \<open>\<^verbatim>\<open>list.some(q => q.index === p.index)\<close>\<close>

definition some_index :: "extremum list \<Rightarrow> extremum \<Rightarrow> bool" where
  "some_index qs p = list_ex (\<lambda>q. ex_index q = ex_index p) qs"

text \<open>
  \<^verbatim>\<open>amplitude >= minAmplitude\<close>, where \<^verbatim>\<open>minAmplitude\<close> is a number or NaN (\<open>None\<close>): a
  comparison with NaN is false.
\<close>

fun js_ge :: "real \<Rightarrow> real option \<Rightarrow> bool" where
  "js_ge amplitude None = False"
| "js_ge amplitude (Some minAmplitude) = (amplitude \<ge> minAmplitude)"

text \<open>
  The loop of \<^verbatim>\<open>filterSignificantPoints\<close>: the first point is kept; a later point is kept
  when its value differs from the last kept one by at least \<^verbatim>\<open>minAmplitude\<close>.
\<close>

fun significant_loop :: "real option \<Rightarrow> extremum option \<Rightarrow> extremum list \<Rightarrow> extremum list" where
  "significant_loop minAmplitude lastPoint [] = []"
| "significant_loop minAmplitude None (p # ps) = p # significant_loop minAmplitude (Some p) ps"
| "significant_loop minAmplitude (Some l) (p # ps) =
     (if js_ge \<bar>ex_value p - ex_value l\<bar> minAmplitude
      then p # significant_loop minAmplitude (Some p) ps
      else significant_loop minAmplitude (Some l) ps)"

text \<open>
  \<^verbatim>\<open>[...peaks, ...valleys].sort((a, b) => a.index - b.index)\<close> is a stable sort by index.
\<close>

definition filterSignificantPoints ::
  "extremum list \<Rightarrow> extremum list \<Rightarrow> real option \<Rightarrow> extremum list \<times> extremum list" where
  "filterSignificantPoints peaks valleys minAmplitude =
     (let allPoints = sort_key ex_index (peaks @ valleys);
          filtered = significant_loop minAmplitude None allPoints
      in (filter (some_index peaks) filtered, filter (some_index valleys) filtered))"

definition findPeaksAndValleys ::
  "metric_point list \<Rightarrow> real option \<Rightarrow> extremum list \<times> extremum list" where
  "findPeaksAndValleys data minAmplitude =
     (let validData = filter (\<lambda>d. mp_value d \<noteq> None) data in
      if length validData < 5 then ([], [])
      else
        let smoothed = smoothData (map (\<lambda>d. to_number (mp_value d)) validData) 5;
            point = (\<lambda>i. \<lparr>ex_index = mp_index (validData ! i), ex_time = mp_time (validData ! i),
                        ex_value = smoothed ! i\<rparr>);
            peaks = map point (filter (isLocalMax smoothed) [2..<length smoothed - 2]);
            valleys = map point (filter (isLocalMin smoothed) [2..<length smoothed - 2])
        in filterSignificantPoints peaks valleys minAmplitude)"

text \<open>
  \<^verbatim>\<open>(frameMap.get(i) || frames[0]).time\<close>: with no frame at all, \<^verbatim>\<open>frames[0]\<close> is undefined and
  reading its time raises.
\<close>

definition frame_time :: "analyzed_frame list \<Rightarrow> nat \<Rightarrow> js_error + real" where
  "frame_time frames i =
     (if i < length frames then Inr (time (frames ! i))
      else (case frames of [] \<Rightarrow> Inl TypeError | f # _ \<Rightarrow> Inr (time f)))"

text \<open>
  The body of the loops of \<^verbatim>\<open>identifyReps\<close> at position \<open>i\<close>: for direction \<^verbatim>\<open>down\<close> a
  repetition is valley, peak, valley; for any other direction, also an undefined one
  (\<open>None\<close>), peak, valley, peak.
\<close>

definition rep_at ::
  "extremum list \<Rightarrow> extremum list \<Rightarrow> string option \<Rightarrow> analyzed_frame list \<Rightarrow> extremum list \<Rightarrow> nat
     \<Rightarrow> js_error + rep_range option" where
  "rep_at peaks valleys dir frames allPoints i =
     (let p1 = allPoints ! i; p2 = allPoints ! (i + 1); p3 = allPoints ! (i + 2) in
      if (if dir = Some ''down''
          then some_index valleys p1 \<and> some_index peaks p2 \<and> some_index valleys p3
          else some_index peaks p1 \<and> some_index valleys p2 \<and> some_index peaks p3)
      then
        (case frame_time frames (ex_index p1) of Inl e \<Rightarrow> Inl e | Inr t1 \<Rightarrow>
         case frame_time frames (ex_index p2) of Inl e \<Rightarrow> Inl e | Inr t2 \<Rightarrow>
         case frame_time frames (ex_index p3) of Inl e \<Rightarrow> Inl e | Inr t3 \<Rightarrow>
           Inr (Some \<lparr>startIndex = ex_index p1, turnIndex = ex_index p2, endIndex = ex_index p3,
                      startTime = t1, turnTime = t2, endTime = t3, duration = t3 - t1,
                      rangeOfMotion = (if dir = Some ''down'' then \<bar>ex_value p1 - ex_value p2\<bar>
                                       else \<bar>ex_value p2 - ex_value p1\<bar>),
                      turn = (if dir = Some ''down'' then ''bottom'' else ''top'')\<rparr>))
      else Inr None)"

definition identifyReps ::
  "extremum list \<Rightarrow> extremum list \<Rightarrow> string option \<Rightarrow> analyzed_frame list
     \<Rightarrow> js_error + rep_range list" where
  "identifyReps peaks valleys dir frames =
     (let allPoints = sort_key ex_index (peaks @ valleys) in
      if length allPoints < 3 then Inr []
      else (case map_err (rep_at peaks valleys dir frames allPoints) [0..<length allPoints - 2] of
              Inl e \<Rightarrow> Inl e
            | Inr found \<Rightarrow> Inr (List.map_filter (\<lambda>r. r) found)))"

text \<open>
  The values used for the range: \<^verbatim>\<open>metricData.map(d => d.value).filter(v => v !== null && v
  !== 0)\<close>.
\<close>

definition nonzero_values :: "metric_point list \<Rightarrow> real list" where
  "nonzero_values data =
     List.map_filter (\<lambda>d. case mp_value d of None \<Rightarrow> None | Some v \<Rightarrow> if v = 0 then None else Some v)
       data"

text \<open>
  \<^verbatim>\<open>Math.max(config.threshold, range * 0.15)\<close> with
  \<^verbatim>\<open>range = Math.max(...values) - Math.min(...values)\<close>. With no value the range is
  \<open>-\<infinity>\<close> and the maximum is the configured threshold. With an undefined threshold
  the maximum is NaN (\<open>None\<close>).
\<close>

fun adaptiveThreshold :: "real option \<Rightarrow> real list \<Rightarrow> real option" where
  "adaptiveThreshold None values = None"
| "adaptiveThreshold (Some threshold) values =
     Some (if values = [] then threshold
           else max threshold ((Max (set values) - Min (set values)) * 0.15))"

text \<open>\<^verbatim>\<open>config.fallbackMetric\<close> as a condition: a string other than the empty one.\<close>

fun truthy :: "string option \<Rightarrow> bool" where
  "truthy None = False"
| "truthy (Some s) = (s \<noteq> [])"

text \<open>
  \<^verbatim>\<open>countReps(frames, exerciseId)\<close>. The fallback metric replaces the primary one when
  fewer than half of the frames have a value other than null and 0. The four properties
  of \<^verbatim>\<open>config\<close> are read where they are used. The console output is not modelled (it
  formats numbers, NaN and infinities included, and does not raise).
\<close>

definition countReps :: "analyzed_frame list \<Rightarrow> string \<Rightarrow> js_error + rep_result" where
  "countReps frames exerciseId =
     (if length frames < 5 then Inr zero_result
      else
        case repThresholds exerciseId of
          None \<Rightarrow> Inr zero_result
        | Some config \<Rightarrow>
            (case extractMetric frames (read_prop cfg_metric config) of Inl e \<Rightarrow> Inl e | Inr primary \<Rightarrow>
             case (if real (length (nonzero_values primary)) < real (length frames) * 0.5
                      \<and> truthy (read_prop fallbackMetric config)
                   then extractMetric frames (read_prop fallbackMetric config)
                   else Inr primary) of Inl e \<Rightarrow> Inl e | Inr data \<Rightarrow>
             (let (peaks, valleys) =
                    findPeaksAndValleys data
                      (adaptiveThreshold (read_prop cfg_threshold config) (nonzero_values data)) in
              case identifyReps peaks valleys (read_prop direction config) frames of Inl e \<Rightarrow> Inl e
              | Inr ranges \<Rightarrow>
                  Inr \<lparr>rr_count = length ranges, repRanges = ranges, peakFrames = Some peaks,
                       valleyFrames = Some valleys, metricData = data\<rparr>)))"

text \<open>
  Test series: frames whose 33 landmarks are all visible (0.9) at height \<open>h\<close>, and the
  sinusoid \<open>1/2 - 3/10 cos (k \<pi> / 3)\<close>, six frames per cycle between 0.2 (standing) and
  0.8 (bottom). \<open>three_cycles\<close> is exactly three cycles, frames 0 to 18, from standing
  to standing; \<open>three_cycles_padded\<close> has half a cycle more on each side, frames 0 to 24.
\<close>

definition hip_frame :: "nat \<Rightarrow> real \<Rightarrow> analyzed_frame" where
  "hip_frame k h =
     \<lparr>time = real k / 30, frameIndex = k, errors = [],
      landmarks = Some (replicate 33 (Some \<lparr>lx = 1 / 2, ly = h, visibility = Some (9 / 10)\<rparr>)),
      features = []\<rparr>"

definition sinusoid :: "int \<Rightarrow> real" where
  "sinusoid k = 1 / 2 - 3 / 10 * cos (real_of_int k * pi / 3)"


definition three_cycles_padded :: "analyzed_frame list" where
  "three_cycles_padded = map (\<lambda>k. hip_frame k (sinusoid (int k - 3))) [0..<25]"

text \<open>The same series with the values of the cosine written out.\<close>

definition cycle_values :: "real list" where
  "cycle_values = [1 / 5, 7 / 20, 13 / 20, 4 / 5, 13 / 20, 7 / 20]"

definition three_cycles_table :: "analyzed_frame list" where
  "three_cycles_table = map (\<lambda>k. hip_frame k (cycle_values ! (k mod 6))) [0..<19]"

definition three_cycles_padded_table :: "analyzed_frame list" where
  "three_cycles_padded_table = map (\<lambda>k. hip_frame k (cycle_values ! ((k + 3) mod 6))) [0..<25]"

text \<open>The metric series the table frames give: every value is visible and not null.\<close>

definition hip_series :: "nat \<Rightarrow> nat \<Rightarrow> metric_point list" where
  "hip_series off n =
     map (\<lambda>k. \<lparr>mp_index = k, mp_time = real k / 30,
                mp_value = Some (cycle_values ! ((k + off) mod 6))\<rparr>) [0..<n]"

text \<open>
  Extrema and repetitions of the test series: frame \<open>k\<close> is at time \<open>k / 30\<close>, and the
  smoothed series swings between 11/25 and 14/25.
\<close>

definition ext :: "nat \<Rightarrow> real \<Rightarrow> extremum" where
  "ext k v = \<lparr>ex_index = k, ex_time = real k / 30, ex_value = v\<rparr>"

definition down_rep :: "nat \<Rightarrow> nat \<Rightarrow> nat \<Rightarrow> rep_range" where
  "down_rep a b c =
     \<lparr>startIndex = a, turnIndex = b, endIndex = c, startTime = real a / 30,
      turnTime = real b / 30, endTime = real c / 30, duration = real c / 30 - real a / 30,
      rangeOfMotion = 3 / 25, turn = ''bottom''\<rparr>"

definition squat_config :: rep_config where
  "squat_config = \<lparr>cfg_metric = ''hipHeight'', fallbackMetric = ''kneeAngle'',
                    cfg_threshold = 0.08, direction = ''down''\<rparr>"

text \<open>The repetition ranges of a result of \<open>countReps\<close>, none when it raised.\<close>

fun ranges_of :: "js_error + rep_result \<Rightarrow> rep_range list" where
  "ranges_of (Inl e) = []"
| "ranges_of (Inr res) = repRanges res"


section \<open>Operations keyed by an exercise id\<close>

subsection \<open>validateForm (PoseAnalysisService)\<close>

text \<open>
  A validation check of the catalog: the fields copied into an error, and the predicate
  \<^verbatim>\<open>validate(landmarks, angles)\<close>, which may raise. An exercise of the catalog: its id and
  its checks. The catalog itself (\<^verbatim>\<open>EXERCISES\<close>) is a parameter.
\<close>

record ('l, 'g) validation_check =
  check_error :: form_error
  validate :: "'l \<Rightarrow> 'g \<Rightarrow> js_error + bool"

record ('l, 'g) exercise =
  ex_id :: string
  validationChecks :: "('l, 'g) validation_check list"

text \<open>
  \<^verbatim>\<open>getExerciseById(exerciseId) {
    if (!exerciseId) return null;
    return Object.values(EXERCISES).find(ex => ex?.id === exerciseId) || null; }\<close>
\<close>

definition getExerciseById :: "('l, 'g) exercise list \<Rightarrow> string \<Rightarrow> ('l, 'g) exercise option" where
  "getExerciseById catalog exerciseId =
     (if exerciseId = [] then None else find (\<lambda>ex. ex_id ex = exerciseId) catalog)"

text \<open>
  \<^verbatim>\<open>validateForm(exerciseOrId, landmarks, angles)\<close>: the first argument is an id (\<open>Inl\<close>) or
  an exercise object (\<open>Inr\<close>); \<^verbatim>\<open>checks = exercise?.validationChecks || []\<close>; a check that
  raises is caught and contributes no error.
\<close>

definition validateForm ::
  "('l, 'g) exercise list \<Rightarrow> string + ('l, 'g) exercise \<Rightarrow> 'l \<Rightarrow> 'g \<Rightarrow> js_error + form_error list" where
  "validateForm catalog exerciseOrId lms angles =
     (let exercise = (case exerciseOrId of
                        Inl exerciseId \<Rightarrow> getExerciseById catalog exerciseId
                      | Inr ex \<Rightarrow> Some ex);
          checks = (case exercise of None \<Rightarrow> [] | Some ex \<Rightarrow> validationChecks ex)
      in Inr (concat (map (\<lambda>c. case validate c lms angles of
                                  Inr True \<Rightarrow> [check_error c]
                                | _ \<Rightarrow> []) checks)))"

subsection \<open>analyzeExercise (PoseAnalysisService)\<close>

text \<open>
  The five per-exercise analysers are parameters; each returns a feature object.
  \<^verbatim>\<open>analysisMap\<close> is the table of the source, an object literal built on each call.
\<close>

record ('l, 'f) analyzers =
  analyzeSquat :: "'l \<Rightarrow> js_error + 'f"
  analyzeDeadlift :: "'l \<Rightarrow> js_error + 'f"
  analyzeOverheadPress :: "'l \<Rightarrow> js_error + 'f"
  analyzeBenchPress :: "'l \<Rightarrow> js_error + 'f"
  analyzePullUp :: "'l \<Rightarrow> js_error + 'f"

text \<open>
  What \<^verbatim>\<open>analyzeExercise\<close> returns: the empty object \<^verbatim>\<open>{}\<close>, an analyser's feature object,
  or a string.
\<close>

datatype 'f feature_object = EmptyObject | Features 'f | StringValue string

definition analysisMap ::
  "('l, 'f) analyzers \<Rightarrow> string \<Rightarrow> ('l \<Rightarrow> js_error + 'f) member option" where
  "analysisMap an = js_get
     [(''squat'', analyzeSquat an), (''deadlift'', analyzeDeadlift an),
      (''overhead_press'', analyzeOverheadPress an), (''bench_press'', analyzeBenchPress an),
      (''pull_up'', analyzePullUp an)]"

text \<open>
  \<^verbatim>\<open>analyzeFn()\<close> for a member of \<^verbatim>\<open>Object.prototype\<close>, called with no argument and an
  undefined receiver: \<^verbatim>\<open>constructor\<close> is \<^verbatim>\<open>Object\<close>, which makes a new empty object;
  \<^verbatim>\<open>isPrototypeOf\<close> returns false for an argument that is not an object (\<open>None\<close> is that
  falsy result); \<^verbatim>\<open>toString\<close> returns the string \<^verbatim>\<open>[object Undefined]\<close>; \<^verbatim>\<open>__proto__\<close> is
  \<^verbatim>\<open>Object.prototype\<close> itself, which is not a function; every other member first converts
  its receiver to an object. The last two raise a TypeError.
\<close>

definition call_prototype_member :: "string \<Rightarrow> js_error + 'f feature_object option" where
  "call_prototype_member name =
     (if name = ''constructor'' then Inr (Some EmptyObject)
      else if name = ''isPrototypeOf'' then Inr None
      else if name = ''toString'' then Inr (Some (StringValue ''[object Undefined]''))
      else Inl TypeError)"

text \<open>
  \<^verbatim>\<open>const analyzeFn = analysisMap[exerciseId];
  const result = analyzeFn ? analyzeFn() : {};
  return result || {};\<close>
\<close>

definition analyzeExercise ::
  "('l, 'f) analyzers \<Rightarrow> string \<Rightarrow> 'l \<Rightarrow> js_error + 'f feature_object" where
  "analyzeExercise an exerciseId lms =
     (case analysisMap an exerciseId of
        None \<Rightarrow> Inr EmptyObject
      | Some analyzeFn \<Rightarrow>
          (case (case analyzeFn of
                   Own analyse \<Rightarrow>
                     (case analyse lms of Inl e \<Rightarrow> Inl e | Inr f \<Rightarrow> Inr (Some (Features f)))
                 | Inherited name \<Rightarrow> call_prototype_member name) of
             Inl e \<Rightarrow> Inl e
           | Inr None \<Rightarrow> Inr EmptyObject
           | Inr (Some result) \<Rightarrow> Inr result))"

subsection \<open>analyzeRepProgression (RepProgressionService)\<close>

text \<open>
  An entry of \<^verbatim>\<open>this.exercisePatterns\<close>; of its properties, \<^verbatim>\<open>phases\<close> and \<^verbatim>\<open>primaryMetric\<close>
  are modelled.
\<close>

record exercise_pattern =
  phases :: "string list"
  primaryMetric :: string

text \<open>\<^verbatim>\<open>this.exercisePatterns[exerciseId]\<close>\<close>

definition exercisePatterns :: "string \<Rightarrow> exercise_pattern member option" where
  "exercisePatterns = js_get
     [(''squat'', \<lparr>phases = [''bottom'', ''ascent'', ''top'', ''descent''], primaryMetric = ''kneeAngle''\<rparr>),
      (''deadlift'', \<lparr>phases = [''bottom'', ''ascent'', ''top'', ''descent''], primaryMetric = ''backAngle''\<rparr>),
      (''overhead_press'', \<lparr>phases = [''bottom'', ''drive'', ''overhead'', ''descent''],
                            primaryMetric = ''elbowAngle''\<rparr>),
      (''bench_press'', \<lparr>phases = [''top'', ''descent'', ''bottom'', ''ascent''], primaryMetric = ''elbowAngle''\<rparr>),
      (''pull_up'', \<lparr>phases = [''bottom'', ''ascent'', ''top'', ''descent''], primaryMetric = ''elbowAngle''\<rparr>)]"

text \<open>
  \<^verbatim>\<open>extractMetricProgression(frames, metric)\<close>: the value is the frame's property of that
  name when the metric is one of the five known names and the property is present. The
  metric is a string or undefined (\<open>None\<close>, which is none of the five names).
\<close>

definition extractMetricProgression ::
  "analyzed_frame list \<Rightarrow> string option \<Rightarrow> progression_point list" where
  "extractMetricProgression frames metric =
     map (\<lambda>(i, fr).
        \<lparr>pp_index = i, pp_time = time fr,
         pp_value = (case metric of
                       None \<Rightarrow> None
                     | Some m \<Rightarrow>
                         if m \<in> set [''kneeAngle'', ''hipAngle'', ''backAngle'', ''elbowAngle'', ''asymmetry'']
                         then (case map_of (features fr) m of None \<Rightarrow> None | Some v \<Rightarrow> v)
                         else None)\<rparr>)
       (enumerate 0 frames)"

text \<open>
  The analysis of one repetition. Of the object the source builds, the modelled part is
  \<^verbatim>\<open>exerciseId\<close>, \<^verbatim>\<open>totalDuration\<close>, \<^verbatim>\<open>frameCount\<close> and \<^verbatim>\<open>quality.smoothness\<close>; the phases,
  the phase issues and the symmetry and tempo scores are left out.
\<close>

record rep_analysis =
  an_exerciseId :: string
  totalDuration :: real
  frameCount :: nat
  smoothness :: int

text \<open>
  \<^verbatim>\<open>analyzeRepProgression(repFrames, exerciseId) {
    const pattern = this.exercisePatterns[exerciseId];
    if (!pattern) return null;
    ...
    const metricProgression = this.extractMetricProgression(repFrames, pattern.primaryMetric);
    const phases = this.identifyPhases(metricProgression, repFrames, pattern); ... }\<close>:
  \<open>None\<close> is the null result. \<^verbatim>\<open>identifyPhases\<close> starts with \<^verbatim>\<open>pattern.phases.forEach\<close>,
  which raises a TypeError when \<^verbatim>\<open>pattern.phases\<close> is undefined.
\<close>

definition analyzeRepProgression :: "analyzed_frame list \<Rightarrow> string \<Rightarrow> js_error + rep_analysis option" where
  "analyzeRepProgression repFrames exerciseId =
     (case exercisePatterns exerciseId of
        None \<Rightarrow> Inr None
      | Some pattern \<Rightarrow>
          (let metricProgression = extractMetricProgression repFrames (read_prop primaryMetric pattern) in
           case read_prop phases pattern of
             None \<Rightarrow> Inl TypeError
           | Some phaseNames \<Rightarrow>
               Inr (Some \<lparr>an_exerciseId = exerciseId,
                          totalDuration = (if length repFrames > 0 then time (last repFrames) else 0),
                          frameCount = length repFrames,
                          smoothness = calculateSmoothness metricProgression\<rparr>)))"

subsection \<open>analyzeVideo: the frames handed to the analysis of each repetition\<close>

text \<open>A value read from an object: a number, or undefined when the property is absent.\<close>

datatype jsval = Undefined | Number jsnum

text \<open>
  \<^verbatim>\<open>repRange[key]\<close> for the objects \<^verbatim>\<open>identifyReps\<close> builds: they have exactly the eight
  properties listed with \<open>rep_range\<close>.
\<close>

definition rep_prop :: "rep_range \<Rightarrow> string \<Rightarrow> jsval" where
  "rep_prop r key =
     (if key = ''startIndex'' then Number (Fin (real (startIndex r)))
      else if key = turn r @ ''Index'' then Number (Fin (real (turnIndex r)))
      else if key = ''endIndex'' then Number (Fin (real (endIndex r)))
      else if key = ''startTime'' then Number (Fin (startTime r))
      else if key = turn r @ ''Time'' then Number (Fin (turnTime r))
      else if key = ''endTime'' then Number (Fin (endTime r))
      else if key = ''duration'' then Number (Fin (duration r))
      else if key = ''rangeOfMotion'' then Number (Fin (rangeOfMotion r))
      else Undefined)"

text \<open>Conversion to a number: undefined becomes NaN.\<close>

fun to_jsnum :: "jsval \<Rightarrow> jsnum" where
  "to_jsnum Undefined = NaN"
| "to_jsnum (Number n) = n"

text \<open>\<^verbatim>\<open>a + b\<close> on numbers.\<close>

fun js_add :: "jsnum \<Rightarrow> jsnum \<Rightarrow> jsnum" where
  "js_add NaN _ = NaN"
| "js_add _ NaN = NaN"
| "js_add (Fin u) (Fin v) = Fin (u + v)"
| "js_add (Fin u) w = w"
| "js_add PosInf NegInf = NaN"
| "js_add PosInf _ = PosInf"
| "js_add NegInf PosInf = NaN"
| "js_add NegInf _ = NegInf"

text \<open>
  The position an argument of \<^verbatim>\<open>Array.prototype.slice\<close> denotes in an array of length
  \<open>len\<close>: the argument is converted to an integer (NaN to 0, a fraction truncated towards
  0); a negative integer counts from the end; the result is clamped to \<open>[0, len]\<close>.
\<close>

fun slice_position :: "nat \<Rightarrow> jsnum \<Rightarrow> nat" where
  "slice_position len NaN = 0"
| "slice_position len NegInf = 0"
| "slice_position len PosInf = len"
| "slice_position len (Fin v) =
     (let k = (if 0 \<le> v then \<lfloor>v\<rfloor> else \<lceil>v\<rceil>)
      in if k < 0 then nat (max (int len + k) 0) else min (nat k) len)"

text \<open>\<^verbatim>\<open>xs.slice(start, end)\<close>; an undefined \<^verbatim>\<open>end\<close> means the length.\<close>

definition js_slice :: "'a list \<Rightarrow> jsval \<Rightarrow> jsval \<Rightarrow> 'a list" where
  "js_slice xs start end_arg =
     (let k = slice_position (length xs) (to_jsnum start);
          final = (case end_arg of
                     Undefined \<Rightarrow> length xs
                   | Number n \<Rightarrow> slice_position (length xs) n)
      in take (final - k) (drop k xs))"

text \<open>
  \<^verbatim>\<open>const repFrames = validFrameResults.slice(repRange.startFrame, repRange.endFrame + 1)\<close>
\<close>

definition analyzeVideo_repFrames :: "analyzed_frame list \<Rightarrow> rep_range \<Rightarrow> analyzed_frame list" where
  "analyzeVideo_repFrames validFrameResults repRange =
     js_slice validFrameResults (rep_prop repRange ''startFrame'')
       (Number (js_add (to_jsnum (rep_prop repRange ''endFrame'')) (Fin 1)))"

text \<open>
  \<^verbatim>\<open>repAnalysis.repRanges.map(repRange => analyzeRepProgression(repFrames, exercise.id))
    .filter(Boolean)\<close>
\<close>

definition repProgressionAnalyses ::
  "analyzed_frame list \<Rightarrow> rep_range list \<Rightarrow> string \<Rightarrow> js_error + rep_analysis list" where
  "repProgressionAnalyses validFrameResults ranges exerciseId =
     (case map_err (\<lambda>r. analyzeRepProgression (analyzeVideo_repFrames validFrameResults r) exerciseId)
             ranges of
        Inl e \<Rightarrow> Inl e
      | Inr results \<Rightarrow> Inr (List.map_filter (\<lambda>a. a) results))"

text \<open>
  The frames of a repetition as the specification describes them: from the start
  extremum to the end extremum, both included.
\<close>

definition spec_repFrames :: "analyzed_frame list \<Rightarrow> rep_range \<Rightarrow> analyzed_frame list" where
  "spec_repFrames validFrameResults repRange =
     take (endIndex repRange + 1 - startIndex repRange) (drop (startIndex repRange) validFrameResults)"

subsection \<open>Examples\<close>

text \<open>
  The ids that are keys of the three built-in tables, a one-exercise catalog whose
  single check always fires, and analysers that return their argument.
\<close>

definition known_ids :: "string list" where
  "known_ids = [''squat'', ''deadlift'', ''overhead_press'', ''bench_press'', ''pull_up'']"

definition example_catalog :: "(unit, unit) exercise list" where
  "example_catalog =
     [\<lparr>ex_id = ''squat'',
       validationChecks = [\<lparr>check_error = mk_error ''knee_valgus'' ''high'',
                            validate = (\<lambda>lms angles. Inr True)\<rparr>]\<rparr>]"

definition example_analyzers :: "(unit, unit) analyzers" where
  "example_analyzers =
     \<lparr>analyzeSquat = Inr, analyzeDeadlift = Inr, analyzeOverheadPress = Inr,
      analyzeBenchPress = Inr, analyzePullUp = Inr\<rparr>"

section \<open>Orchestrator: batches cover the frames and results keep their order\<close>















lemma enumerate_map_upt: "enumerate 0 (map g [0..<m]) = map (\<lambda>k. (k, g k)) [0..<m]"
  by (simp add: enumerate_eq_zip zip_map2 zip_same_conv_map)









section \<open>Aggregation: retained errors and their order\<close>

lemma count_of_record_error:
  "count_of (record_error t e acc) i = count_of acc i + (if err_id e = i then 1 else 0)"
  by (induction acc) (auto simp: count_of_def)

lemma keys_record_error:
  "set (map fst (record_error t e acc)) = insert (err_id e) (set (map fst acc))"
  by (induction t e acc rule: record_error.induct) (auto split: if_splits)

lemma distinct_record_error:
  "distinct (map fst acc) \<Longrightarrow> distinct (map fst (record_error t e acc))"
proof (induction acc)
  case Nil
  then show ?case by simp
next
  case (Cons p acc)
  obtain k c where p: "p = (k, c)" by (cases p)
  from Cons show ?case
    using keys_record_error[of t e acc] by (auto simp: p)
qed

lemma key_is_id_record_error:
  "\<forall>(k, c) \<in> set acc. k = err_id (first_error c) \<Longrightarrow>
   \<forall>(k, c) \<in> set (record_error t e acc). k = err_id (first_error c)"
  by (induction t e acc rule: record_error.induct) (auto split: if_splits)

lemma dict_ok_record_error: "dict_ok acc \<Longrightarrow> dict_ok (record_error t e acc)"
  unfolding dict_ok_def using distinct_record_error key_is_id_record_error by blast

lemma fold_record_error:
  "dict_ok acc \<Longrightarrow>
   dict_ok (fold (record_error t) es acc) \<and>
   count_of (fold (record_error t) es acc) i = count_of acc i + length (filter (\<lambda>e. err_id e = i) es)"
  by (induction es arbitrary: acc) (auto simp: dict_ok_record_error count_of_record_error)

lemma fold_frames:
  "dict_ok acc \<Longrightarrow>
   dict_ok (fold (\<lambda>fr acc. fold (record_error (time fr)) (errors fr) acc) fs acc) \<and>
   count_of (fold (\<lambda>fr acc. fold (record_error (time fr)) (errors fr) acc) fs acc) i
     = count_of acc i + occurrences i fs"
proof (induction fs arbitrary: acc)
  case Nil
  then show ?case by (simp add: occurrences_def)
next
  case (Cons fr fs)
  from fold_record_error[OF Cons.prems, of "time fr" "errors fr" i]
  have ok: "dict_ok (fold (record_error (time fr)) (errors fr) acc)"
    and c: "count_of (fold (record_error (time fr)) (errors fr) acc) i
            = count_of acc i + length (filter (\<lambda>e. err_id e = i) (errors fr))" by simp_all
  from Cons.IH[OF ok] c show ?case by (simp add: occurrences_def)
qed

lemma errorCounts_ok: "dict_ok (errorCounts fs)"
  unfolding errorCounts_def using fold_frames[of "[]" fs] by (simp add: dict_ok_def)

lemma errorCounts_count:
  assumes "(k, c) \<in> set (errorCounts fs)"
  shows "k = err_id (first_error c)" "count c = occurrences k fs"
proof -
  have ok: "dict_ok (errorCounts fs)" by (rule errorCounts_ok)
  then show "k = err_id (first_error c)" using assms by (auto simp: dict_ok_def)
  from ok assms have "map_of (errorCounts fs) k = Some c" by (simp add: dict_ok_def)
  then have "count_of (errorCounts fs) k = count c" by (simp add: count_of_def)
  moreover have "count_of (errorCounts fs) k = occurrences k fs"
    unfolding errorCounts_def using fold_frames[of "[]" fs k] by (simp add: dict_ok_def count_of_def)
  ultimately show "count c = occurrences k fs" by simp
qed

lemma sorted_by_severity:
  "sorted_wrt (\<lambda>a b. severityOrder (severity (first_error a)) \<ge> severityOrder (severity (first_error b)))
     (sort_by_severity es)"
proof -
  have "sorted (map (\<lambda>e. - severityOrder (severity (first_error e))) (sort_by_severity es))"
    unfolding sort_by_severity_def by (rule sorted_sort_key)
  then show ?thesis by (simp add: sorted_map)
qed

lemma stable_by_severity:
  "filter (\<lambda>e. severityOrder (severity (first_error e)) = r) (sort_by_severity es)
     = filter (\<lambda>e. severityOrder (severity (first_error e)) = r) es"
  using sort_key_stable[of "\<lambda>e. - severityOrder (severity (first_error e))" "- r" es]
  by (simp add: sort_by_severity_def)

lemma with_frequency_simps [simp]:
  "first_error (with_frequency n c) = first_error c"
  "count (with_frequency n c) = count c"
  "frequency (with_frequency n c) = real (count c) / real n"
  "thresholdFrequency (with_frequency n c) = severity_threshold (severity (first_error c))"
  by (simp_all add: with_frequency_def)

lemma significantErrors_set:
  "set (significantErrors fs) =
     {with_frequency (length fs) c | k c. (k, c) \<in> set (errorCounts fs) \<and>
        real (occurrences k fs) / real (length fs) \<ge> severity_threshold (severity (first_error c))}"
proof (cases "fs = []")
  case True
  then show ?thesis by (simp add: significantErrors_def errorCounts_def)
next
  case False
  have "set (significantErrors fs) =
      {e \<in> with_frequency (length fs) ` snd ` set (errorCounts fs). frequency e \<ge> thresholdFrequency e}"
    using False by (simp add: significantErrors_def sort_by_severity_def image_image)
  also have "\<dots> = {with_frequency (length fs) c | k c. (k, c) \<in> set (errorCounts fs) \<and>
        real (count c) / real (length fs) \<ge> severity_threshold (severity (first_error c))}"
    by force
  also have "\<dots> = {with_frequency (length fs) c | k c. (k, c) \<in> set (errorCounts fs) \<and>
        real (occurrences k fs) / real (length fs) \<ge> severity_threshold (severity (first_error c))}"
    using errorCounts_count(2) by (metis (no_types, lifting))
  finally show ?thesis .
qed

lemma first_occurrences_snoc:
  "first_occurrences (xs @ [x]) = (if x \<in> set xs then first_occurrences xs else first_occurrences xs @ [x])"
  by (simp add: first_occurrences_def)

lemma set_first_occurrences [simp]: "set (first_occurrences xs) = set xs"
  by (simp add: first_occurrences_def)

lemma map_fst_record_error:
  "map fst (record_error t e acc)
     = (if err_id e \<in> set (map fst acc) then map fst acc else map fst acc @ [err_id e])"
  by (induction t e acc rule: record_error.induct) auto

lemma first_error_record_error:
  assumes "(k, c) \<in> set (record_error t e acc)"
  shows "(\<exists>c0. (k, c0) \<in> set acc \<and> first_error c = first_error c0)
         \<or> (k = err_id e \<and> first_error c = e \<and> err_id e \<notin> set (map fst acc))"
  using assms by (induction t e acc rule: record_error.induct) (auto split: if_splits)

lemma find_snoc:
  "find P (xs @ [x]) = (case find P xs of Some y \<Rightarrow> Some y | None \<Rightarrow> if P x then Some x else None)"
  by (induction xs) auto

lemma find_None_iff2: "find P xs = None \<longleftrightarrow> (\<forall>x \<in> set xs. \<not> P x)"
  by (induction xs) auto

lemma merged_record_error:
  assumes "merged seen acc"
  shows "merged (seen @ [e]) (record_error t e acc)"
proof -
  from assms have keys: "map fst acc = first_occurrences (map err_id seen)"
    and firsts: "\<And>k c. (k, c) \<in> set acc \<Longrightarrow> find (\<lambda>e. err_id e = k) seen = Some (first_error c)"
    by (auto simp: merged_def)
  have ks: "set (map fst acc) = err_id ` set seen" unfolding keys by simp
  have "map fst (record_error t e acc) = first_occurrences (map err_id (seen @ [e]))"
    unfolding map_fst_record_error using keys ks by (simp add: first_occurrences_snoc)
  moreover have "find (\<lambda>x. err_id x = k) (seen @ [e]) = Some (first_error c)"
    if "(k, c) \<in> set (record_error t e acc)" for k c
    using first_error_record_error[OF that]
  proof
    assume "\<exists>c0. (k, c0) \<in> set acc \<and> first_error c = first_error c0"
    then obtain c0 where "(k, c0) \<in> set acc" "first_error c = first_error c0" by blast
    with firsts[of k c0] show ?thesis by (simp add: find_snoc)
  next
    assume a: "k = err_id e \<and> first_error c = e \<and> err_id e \<notin> set (map fst acc)"
    then have "err_id e \<notin> err_id ` set seen" using ks by simp
    then have "find (\<lambda>x. err_id x = err_id e) seen = None"
      unfolding find_None_iff2 by (metis imageI)
    with a show ?thesis by (simp add: find_snoc)
  qed
  ultimately show ?thesis unfolding merged_def by blast
qed

lemma merged_fold_errors:
  "merged seen acc \<Longrightarrow> merged (seen @ es) (fold (record_error t) es acc)"
proof (induction es arbitrary: seen acc)
  case Nil
  then show ?case by simp
next
  case (Cons e es)
  from Cons.IH[OF merged_record_error[OF Cons.prems, of e t]] show ?case by simp
qed

lemma merged_fold_frames:
  "merged seen acc \<Longrightarrow>
   merged (seen @ concat (map errors fs))
     (fold (\<lambda>fr acc. fold (record_error (time fr)) (errors fr) acc) fs acc)"
proof (induction fs arbitrary: seen acc)
  case Nil
  then show ?case by simp
next
  case (Cons fr fs)
  from Cons.IH[OF merged_fold_errors[OF Cons.prems, of "errors fr" "time fr"]] show ?case by simp
qed

lemma errorCounts_merged: "merged (concat (map errors fs)) (errorCounts fs)"
  unfolding errorCounts_def using merged_fold_frames[of "[]" "[]" fs]
  by (simp add: merged_def first_occurrences_def)

lemma spec_outranks_severityOrder:
  "spec_outranks a b \<Longrightarrow> severityOrder b < severityOrder a"
  by (auto simp: spec_outranks_def severityOrder_def)

lemma sorted_by_spec_order:
  "sorted_wrt (\<lambda>a b. \<not> spec_outranks (severity (first_error b)) (severity (first_error a)))
     (sort_by_severity es)"
  by (rule sorted_wrt_mono_rel[OF _ sorted_by_severity]) (use spec_outranks_severityOrder in fastforce)

lemma stable_by_severity_name:
  "filter (\<lambda>e. severity (first_error e) = s) (sort_by_severity es)
     = filter (\<lambda>e. severity (first_error e) = s) es"
proof -
  let ?r = "severityOrder s"
  have "filter (\<lambda>e. severity (first_error e) = s) (filter (\<lambda>e. severityOrder (severity (first_error e)) = ?r) (sort_by_severity es))
      = filter (\<lambda>e. severity (first_error e) = s) (filter (\<lambda>e. severityOrder (severity (first_error e)) = ?r) es)"
    by (simp only: stable_by_severity)
  moreover have "filter (\<lambda>e. severity (first_error e) = s) (filter (\<lambda>e. severityOrder (severity (first_error e)) = ?r) xs)
     = filter (\<lambda>e. severity (first_error e) = s) xs" for xs :: "significant_error list"
    by (induction xs) auto
  ultimately show ?thesis by simp
qed

text \<open>
  Claim C3, for errors as the catalog makes them. The merged issues are the distinct
  error ids, one entry per id, in the order in which the ids first occur in the frames;
  an entry holds the first error seen under its id and the number of occurrences of the
  id. A merged issue is among the significant errors exactly when its frequency, the
  number of its occurrences divided by the number of analysed frames, is at least the
  threshold of its severity (0.15 critical, 0.20 high, 0.25 medium, 0.30 low; the
  comparison is inclusive). The significant errors are in descending severity order,
  critical before high before medium before low (the ranks 4, 3, 2, 1 of the source): no
  error comes after an error of a lower severity. Among errors of one severity the order
  is the insertion order of the merged issues.
\<close>

theorem significant_errors_threshold_and_order:
  assumes "catalog_errors fs"
  shows "map fst (errorCounts fs) = first_occurrences (map err_id (concat (map errors fs)))
   \<and> distinct (map fst (errorCounts fs))
   \<and> (\<forall>(k, c) \<in> set (errorCounts fs).
          k = err_id (first_error c)
          \<and> find (\<lambda>e. err_id e = k) (concat (map errors fs)) = Some (first_error c)
          \<and> count c = occurrences k fs
          \<and> frequency (with_frequency (length fs) c) = real (occurrences k fs) / real (length fs))
   \<and> (\<forall>e. e \<in> set (significantErrors fs) \<longleftrightarrow>
        (\<exists>k c. (k, c) \<in> set (errorCounts fs) \<and> e = with_frequency (length fs) c \<and>
           real (occurrences k fs) / real (length fs) \<ge> severity_threshold (severity (first_error c))))
   \<and> severity_threshold ''critical'' = 0.15 \<and> severity_threshold ''high'' = 0.20
   \<and> severity_threshold ''medium'' = 0.25 \<and> severity_threshold ''low'' = 0.30
   \<and> severityOrder ''critical'' = 4 \<and> severityOrder ''high'' = 3
   \<and> severityOrder ''medium'' = 2 \<and> severityOrder ''low'' = 1
   \<and> sorted_wrt (\<lambda>a b. \<not> spec_outranks (severity (first_error b)) (severity (first_error a)))
         (significantErrors fs)
   \<and> sorted_wrt (\<lambda>a b. severityOrder (severity (first_error a)) \<ge> severityOrder (severity (first_error b)))
         (significantErrors fs)
   \<and> (\<forall>s. filter (\<lambda>e. severity (first_error e) = s) (significantErrors fs)
          = filter (\<lambda>e. severity (first_error e) = s)
              (filter (\<lambda>e. frequency e \<ge> thresholdFrequency e)
                 (map (with_frequency (length fs)) (map snd (errorCounts fs)))))
   \<and> (\<forall>r. filter (\<lambda>e. severityOrder (severity (first_error e)) = r) (significantErrors fs)
          = filter (\<lambda>e. severityOrder (severity (first_error e)) = r)
              (filter (\<lambda>e. frequency e \<ge> thresholdFrequency e)
                 (map (with_frequency (length fs)) (map snd (errorCounts fs)))))"
proof (intro conjI)
  note m = errorCounts_merged[of fs, unfolded merged_def]
  show "map fst (errorCounts fs) = first_occurrences (map err_id (concat (map errors fs)))"
    using m by (rule conjunct1)
  show "distinct (map fst (errorCounts fs))"
    using errorCounts_ok[of fs] by (simp add: dict_ok_def)
  show "\<forall>(k, c) \<in> set (errorCounts fs).
          k = err_id (first_error c)
          \<and> find (\<lambda>e. err_id e = k) (concat (map errors fs)) = Some (first_error c)
          \<and> count c = occurrences k fs
          \<and> frequency (with_frequency (length fs) c) = real (occurrences k fs) / real (length fs)"
    using errorCounts_count[of _ _ fs] conjunct2[OF m] by auto
  show "\<forall>e. e \<in> set (significantErrors fs) \<longleftrightarrow>
        (\<exists>k c. (k, c) \<in> set (errorCounts fs) \<and> e = with_frequency (length fs) c \<and>
           real (occurrences k fs) / real (length fs) \<ge> severity_threshold (severity (first_error c)))"
    unfolding significantErrors_set by blast
  show "severity_threshold ''critical'' = 0.15" "severity_threshold ''high'' = 0.20"
    "severity_threshold ''medium'' = 0.25" "severity_threshold ''low'' = 0.30"
    by (simp_all add: severity_threshold_def)
  show "severityOrder ''critical'' = 4" "severityOrder ''high'' = 3"
    "severityOrder ''medium'' = 2" "severityOrder ''low'' = 1"
    by (simp_all add: severityOrder_def)
  show "sorted_wrt (\<lambda>a b. \<not> spec_outranks (severity (first_error b)) (severity (first_error a)))
         (significantErrors fs)"
    unfolding significantErrors_def using sorted_by_spec_order by simp
  show "sorted_wrt (\<lambda>a b. severityOrder (severity (first_error a)) \<ge> severityOrder (severity (first_error b)))
         (significantErrors fs)"
    unfolding significantErrors_def using sorted_by_severity by simp
  show "\<forall>s. filter (\<lambda>e. severity (first_error e) = s) (significantErrors fs)
          = filter (\<lambda>e. severity (first_error e) = s)
              (filter (\<lambda>e. frequency e \<ge> thresholdFrequency e)
                 (map (with_frequency (length fs)) (map snd (errorCounts fs))))"
  proof (cases "fs = []")
    case True
    then show ?thesis by (simp add: significantErrors_def errorCounts_def)
  next
    case False
    then show ?thesis unfolding significantErrors_def using stable_by_severity_name by simp
  qed
  show "\<forall>r. filter (\<lambda>e. severityOrder (severity (first_error e)) = r) (significantErrors fs)
          = filter (\<lambda>e. severityOrder (severity (first_error e)) = r)
              (filter (\<lambda>e. frequency e \<ge> thresholdFrequency e)
                 (map (with_frequency (length fs)) (map snd (errorCounts fs))))"
  proof (cases "fs = []")
    case True
    then show ?thesis by (simp add: significantErrors_def errorCounts_def)
  next
    case False
    then show ?thesis unfolding significantErrors_def using stable_by_severity by simp
  qed
qed

lemma agg_example_eval:
  "map (\<lambda>e. (err_id (first_error e), severity (first_error e), count e, frequency e))
       (significantErrors agg_example)
   = [(''back_rounding_squat'', ''critical'', 3, 3 / 20), (''knee_valgus'', ''high'', 4, 1 / 5),
      (''shallow_depth'', ''medium'', 5, 1 / 4), (''excessive_lean'', ''medium'', 6, 3 / 10)]"
  by code_simp

lemma agg_example_counts:
  "map (\<lambda>(k, c). (k, count c)) (errorCounts agg_example)
   = [(''knee_forward_travel'', 5), (''shallow_depth'', 5), (''heel_lift'', 3),
      (''back_rounding_squat'', 3), (''excessive_lean'', 6), (''knee_valgus'', 4)]"
  by code_simp

lemma agg_example_length: "length agg_example = 20"
  by (simp add: agg_example_def)

lemma agg_example_catalog: "catalog_errors agg_example"
  by code_simp

lemma agg_example_ids:
  "first_occurrences (map err_id (concat (map errors agg_example)))
   = [''knee_forward_travel'', ''shallow_depth'', ''heel_lift'', ''back_rounding_squat'',
      ''excessive_lean'', ''knee_valgus'']"
  by code_simp

text \<open>
  On the example run the merged issues are the six ids in the order low, medium, high,
  critical, medium, high of their first occurrence. The critical issue at exactly
  3/20 = 0.15 and the high issue at exactly 4/20 = 0.20 are kept, the high issue at 3/20
  and the low issue at 5/20 are dropped; the critical issue, inserted fourth, comes
  first, and the two medium issues keep their insertion order.
\<close>

theorem significant_errors_threshold_and_order_witness:
  "catalog_errors agg_example
   \<and> map fst (errorCounts agg_example)
       = [''knee_forward_travel'', ''shallow_depth'', ''heel_lift'', ''back_rounding_squat'',
          ''excessive_lean'', ''knee_valgus'']
   \<and> (\<forall>e. e \<in> set (significantErrors agg_example) \<longleftrightarrow>
        (\<exists>k c. (k, c) \<in> set (errorCounts agg_example) \<and> e = with_frequency 20 c \<and>
           real (occurrences k agg_example) / 20 \<ge> severity_threshold (severity (first_error c))))
   \<and> sorted_wrt (\<lambda>a b. \<not> spec_outranks (severity (first_error b)) (severity (first_error a)))
         (significantErrors agg_example)
   \<and> map (\<lambda>(k, c). (k, count c)) (errorCounts agg_example)
       = [(''knee_forward_travel'', 5), (''shallow_depth'', 5), (''heel_lift'', 3),
          (''back_rounding_squat'', 3), (''excessive_lean'', 6), (''knee_valgus'', 4)]
   \<and> map (\<lambda>e. (err_id (first_error e), severity (first_error e), count e, frequency e))
         (significantErrors agg_example)
       = [(''back_rounding_squat'', ''critical'', 3, 3 / 20), (''knee_valgus'', ''high'', 4, 1 / 5),
          (''shallow_depth'', ''medium'', 5, 1 / 4), (''excessive_lean'', ''medium'', 6, 3 / 10)]"
proof -
  note t = significant_errors_threshold_and_order [OF agg_example_catalog, unfolded agg_example_length]
  from t have keys: "map fst (errorCounts agg_example)
       = first_occurrences (map err_id (concat (map errors agg_example)))"
    by (rule conjunct1)
  from t have iff: "\<forall>e. e \<in> set (significantErrors agg_example) \<longleftrightarrow>
        (\<exists>k c. (k, c) \<in> set (errorCounts agg_example) \<and> e = with_frequency 20 c \<and>
           real (occurrences k agg_example) / 20 \<ge> severity_threshold (severity (first_error c)))"
    by simp
  from t have ord: "sorted_wrt (\<lambda>a b. \<not> spec_outranks (severity (first_error b)) (severity (first_error a)))
         (significantErrors agg_example)"
    by simp
  show ?thesis
    by (intro conjI) (rule agg_example_catalog keys[unfolded agg_example_ids] iff ord
        agg_example_counts agg_example_eval)+
qed

section \<open>Scoring\<close>

lemma agg_example_nsig: "length (significantErrors agg_example) = 4"
  using arg_cong[OF agg_example_eval, of length] by simp

text \<open>
  Claim C4. The base score is 100 minus 15 for each significant error, clamped to
  \<open>[0, 100]\<close>, and it is 0 when there is no analysed frame; the final score is the base
  score times the completeness confidence, rounded to the nearest integer.
\<close>

theorem score_formula:
  "baseScore fs =
     (if length fs = 0 then 0
      else spec_clamp (100 - 15 * int (length (significantErrors fs))) 0 100)
   \<and> 0 \<le> baseScore fs \<and> baseScore fs \<le> 100
   \<and> score fs confidence = round (real_of_int (baseScore fs) * confidence)
   \<and> \<bar>real_of_int (score fs confidence) - real_of_int (baseScore fs) * confidence\<bar> \<le> 1 / 2"
proof (intro conjI)
  show "baseScore fs =
     (if length fs = 0 then 0
      else spec_clamp (100 - 15 * int (length (significantErrors fs))) 0 100)"
    unfolding baseScore_def spec_clamp_def by auto
  show "0 \<le> baseScore fs" "baseScore fs \<le> 100"
    by (simp_all add: baseScore_def)
  show r: "score fs confidence = round (real_of_int (baseScore fs) * confidence)"
    by (simp add: score_def Math_round_def round_def)
  show "\<bar>real_of_int (score fs confidence) - real_of_int (baseScore fs) * confidence\<bar> \<le> 1 / 2"
    unfolding r by (rule of_int_round_abs_le)
qed

text \<open>
  On the example run (four significant errors): base score 40; confidence 61/80 gives
  30.5, rounded to 31.
\<close>

theorem score_formula_witness:
  "baseScore agg_example = 40 \<and> score agg_example (61 / 80) = 31 \<and> score agg_example (1 / 2) = 20
   \<and> baseScore [] = 0 \<and> score [] 1 = 0"
  using score_formula [of agg_example "61 / 80"] score_formula [of agg_example "1 / 2"]
    score_formula [of "[]" 1]
  by (simp add: agg_example_nsig agg_example_length spec_clamp_def round_def)


section \<open>Geometry kernel: range, symmetry and sentinel of the angle\<close>

lemma atan2_bounds: "- pi \<le> atan2 y x \<and> atan2 y x \<le> pi"
proof -
  have a: "- (pi / 2) < arctan (y / x)" "arctan (y / x) < pi / 2"
    by (rule arctan_lbound, rule arctan_ubound)
  have p: "0 < pi" by (rule pi_gt_zero)
  show ?thesis
  proof (cases "x < 0")
    case True
    show ?thesis
    proof (cases "0 \<le> y")
      case True
      with \<open>x < 0\<close> have "y / x \<le> 0" by (simp add: divide_nonneg_neg)
      then have "arctan (y / x) \<le> 0" by (simp add: arctan_le_zero_iff)
      moreover have "atan2 y x = arctan (y / x) + pi" using True \<open>x < 0\<close> by (simp add: atan2_def)
      ultimately show ?thesis using a p by linarith
    next
      case False
      with \<open>x < 0\<close> have "0 < y / x" by (simp add: divide_neg_neg)
      then have "0 < arctan (y / x)" by (simp add: zero_less_arctan_iff)
      moreover have "atan2 y x = arctan (y / x) - pi" using False \<open>x < 0\<close> by (simp add: atan2_def)
      ultimately show ?thesis using a p by linarith
    qed
  next
    case False
    then have "atan2 y x = arctan (y / x) \<or> atan2 y x = pi / 2 \<or> atan2 y x = - (pi / 2) \<or> atan2 y x = 0"
      by (auto simp: atan2_def)
    with a p show ?thesis by linarith
  qed
qed

lemma angle_range:
  fixes r :: real
  assumes "\<bar>r\<bar> \<le> 2 * pi"
  shows "0 \<le> (if \<bar>r * 180 / pi\<bar> > 180 then 360 - \<bar>r * 180 / pi\<bar> else \<bar>r * 180 / pi\<bar>)"
        "(if \<bar>r * 180 / pi\<bar> > 180 then 360 - \<bar>r * 180 / pi\<bar> else \<bar>r * 180 / pi\<bar>) \<le> 180"
proof -
  have "\<bar>r * 180 / pi\<bar> = \<bar>r\<bar> * 180 / pi" by (simp add: abs_mult)
  also have "\<dots> \<le> (2 * pi) * 180 / pi" using assms by (intro divide_right_mono mult_right_mono) simp_all
  also have "\<dots> = 360" by simp
  finally have le: "\<bar>r * 180 / pi\<bar> \<le> 360" .
  then show "0 \<le> (if \<bar>r * 180 / pi\<bar> > 180 then 360 - \<bar>r * 180 / pi\<bar> else \<bar>r * 180 / pi\<bar>)" by simp
  show "(if \<bar>r * 180 / pi\<bar> > 180 then 360 - \<bar>r * 180 / pi\<bar> else \<bar>r * 180 / pi\<bar>) \<le> 180" by simp
qed

lemma usableE:
  assumes "isUsableLandmark a"
  obtains l u v where "a = Some l" "lx l = Fin u" "ly l = Fin v"
proof -
  from assms obtain l where l: "a = Some l" by (cases a) auto
  with assms have "Number_isFinite (lx l)" "Number_isFinite (ly l)" by simp_all
  then obtain u v where "lx l = Fin u" "ly l = Fin v"
    by (cases "lx l"; cases "ly l") auto
  with l that show thesis by blast
qed

lemma calculateAngle_finite:
  assumes "lx la = Fin ax" "ly la = Fin ay" "lx lb = Fin bx" "ly lb = Fin by"
    "lx lc = Fin cx" "ly lc = Fin cy"
  shows "calculateAngle (Some la) (Some lb) (Some lc) =
     Inr (Fin (let r = atan2 (cy - by) (cx - bx) - atan2 (ay - by) (ax - bx)
               in if \<bar>r * 180 / pi\<bar> > 180 then 360 - \<bar>r * 180 / pi\<bar> else \<bar>r * 180 / pi\<bar>))"
  using assms by (simp add: calculateAngle_def Let_def)

text \<open>
  Claim C7. For points with finite coordinates, \<open>calculateAngle a b c\<close> returns a number
  in \<open>[0, 180]\<close>, and swapping the first and third arguments does not change it.
\<close>

theorem calculateAngle_range_symmetric:
  assumes "isUsableLandmark a" "isUsableLandmark b" "isUsableLandmark c"
  shows "\<exists>r. calculateAngle a b c = Inr (Fin r) \<and> 0 \<le> r \<and> r \<le> 180
           \<and> calculateAngle c b a = calculateAngle a b c"
proof -
  from assms(1) obtain la ax ay where a: "a = Some la" "lx la = Fin ax" "ly la = Fin ay"
    by (rule usableE)
  from assms(2) obtain lb bx "by" where b: "b = Some lb" "lx lb = Fin bx" "ly lb = Fin by"
    by (rule usableE)
  from assms(3) obtain lc cx cy where c: "c = Some lc" "lx lc = Fin cx" "ly lc = Fin cy"
    by (rule usableE)
  define r where "r = atan2 (cy - by) (cx - bx) - atan2 (ay - by) (ax - bx)"
  define g where "g = (\<lambda>r::real. if \<bar>r * 180 / pi\<bar> > 180 then 360 - \<bar>r * 180 / pi\<bar> else \<bar>r * 180 / pi\<bar>)"
  have abc: "calculateAngle a b c = Inr (Fin (g r))"
    unfolding a(1) b(1) c(1) r_def g_def
    using calculateAngle_finite[OF a(2,3) b(2,3) c(2,3)] by (simp add: Let_def)
  have cba: "calculateAngle c b a = Inr (Fin (g (- r)))"
    unfolding a(1) b(1) c(1) r_def g_def
    using calculateAngle_finite[OF c(2,3) b(2,3) a(2,3)] by (simp add: Let_def)
  have sym: "g (- r) = g r" by (simp add: g_def)
  have "\<bar>r\<bar> \<le> 2 * pi"
    unfolding r_def
    using atan2_bounds[of "cy - by" "cx - bx"] atan2_bounds[of "ay - by" "ax - bx"] by linarith
  from angle_range[OF this] have "0 \<le> g r" "g r \<le> 180" by (simp_all add: g_def)
  with abc cba sym show ?thesis by simp
qed

text \<open>The right angle at the origin between the two axes: 90 degrees, in both orders.\<close>

theorem calculateAngle_range_symmetric_witness:
  "isUsableLandmark (pt (Fin 1) (Fin 0)) \<and> isUsableLandmark (pt (Fin 0) (Fin 0))
   \<and> isUsableLandmark (pt (Fin 0) (Fin 1))
   \<and> (\<exists>r. calculateAngle (pt (Fin 1) (Fin 0)) (pt (Fin 0) (Fin 0)) (pt (Fin 0) (Fin 1)) = Inr (Fin r)
          \<and> 0 \<le> r \<and> r \<le> 180
          \<and> calculateAngle (pt (Fin 0) (Fin 1)) (pt (Fin 0) (Fin 0)) (pt (Fin 1) (Fin 0))
              = calculateAngle (pt (Fin 1) (Fin 0)) (pt (Fin 0) (Fin 0)) (pt (Fin 0) (Fin 1)))
   \<and> calculateAngle (pt (Fin 1) (Fin 0)) (pt (Fin 0) (Fin 0)) (pt (Fin 0) (Fin 1)) = Inr (Fin 90)"
proof -
  have u: "isUsableLandmark (pt (Fin 1) (Fin 0))" "isUsableLandmark (pt (Fin 0) (Fin 0))"
    "isUsableLandmark (pt (Fin 0) (Fin 1))" by (simp_all add: pt_def)
  have v: "calculateAngle (pt (Fin 1) (Fin 0)) (pt (Fin 0) (Fin 0)) (pt (Fin 0) (Fin 1)) = Inr (Fin 90)"
    by (simp add: pt_def calculateAngle_def atan2_def Let_def)
  show ?thesis using u v calculateAngle_range_symmetric [OF u] by simp
qed

lemma js_NaN_right [simp]:
  "js_sub v NaN = NaN" "js_atan2 v NaN = NaN" "js_mul v NaN = NaN" "js_div v NaN = NaN"
  by (cases v; simp)+







section \<open>Smoothness score\<close>

lemma smoothness_example:
  "valid_values (progression [Some 0, Some 0, None, Some 1]) = [0, 0, 1]"
  "velocities_of (filter (\<lambda>p. pp_value p \<noteq> None) (progression [Some 0, Some 0, None, Some 1])) = [0, 1]"
  "spec_jerk [0, 0, 1] = [1]"
  "spec_meanAbsoluteJerk [0, 0, 1] = 1"
  "totalAcceleration [0, 1] = 1"
  "spec_smoothness (progression [Some 0, Some 0, None, Some 1]) = 95"
  "calculateSmoothness (progression [Some 0, Some 0, None, Some 1]) = 98"
  by code_simp+

text \<open>
  Claim C9 fails on the code. The valid values 0, 0, 1 (a null in between is skipped) have
  the velocities 0, 1 and one second difference, 1, so the mean absolute jerk is 1 and
  \<open>100 - 5 \<times> mean\<close> is 95. The source sums the one absolute second difference and divides
  the sum by \<^verbatim>\<open>velocities.length\<close>, which is 2: its \<^verbatim>\<open>avgAcceleration\<close> is 1/2, and it
  returns \<open>Math.round(97.5) = 98\<close>.
\<close>

theorem smoothness_divides_by_velocity_count:
  "valid_values (progression [Some 0, Some 0, None, Some 1]) = [0, 0, 1]
   \<and> spec_jerk [0, 0, 1] = [1]
   \<and> spec_meanAbsoluteJerk [0, 0, 1] = 1
   \<and> spec_smoothness (progression [Some 0, Some 0, None, Some 1]) = 95
   \<and> velocities_of (filter (\<lambda>p. pp_value p \<noteq> None) (progression [Some 0, Some 0, None, Some 1])) = [0, 1]
   \<and> totalAcceleration [0, 1] / real (length [0 :: real, 1]) = 1 / 2
   \<and> calculateSmoothness (progression [Some 0, Some 0, None, Some 1]) = 98
   \<and> real_of_int (calculateSmoothness (progression [Some 0, Some 0, None, Some 1]))
       \<noteq> spec_smoothness (progression [Some 0, Some 0, None, Some 1])"
  unfolding smoothness_example by simp

section \<open>Repetition counter on the test series\<close>

lemma map_err_total:
  "(\<And>x. x \<in> set xs \<Longrightarrow> f x = Inr (g x)) \<Longrightarrow> map_err f xs = Inr (map g xs)"
  by (induction xs) simp_all

lemma metric_value_hip:
  "metric_value (Some ''hipHeight'') (replicate 33 (Some \<lparr>lx = u, ly = h, visibility = Some (9 / 10)\<rparr>))
     = Inr (Some h)"
  by (simp add: metric_value_def)

lemma extractMetric_hip_frames:
  "extractMetric (map (\<lambda>k. hip_frame k (h k)) [0..<n]) (Some ''hipHeight'')
     = Inr (map (\<lambda>k. \<lparr>mp_index = k, mp_time = real k / 30, mp_value = Some (h k)\<rparr>) [0..<n])"
proof -
  let ?fs = "map (\<lambda>k. hip_frame k (h k)) [0..<n]"
  have en: "enumerate 0 ?fs = map (\<lambda>k. (k, hip_frame k (h k))) [0..<n]"
    by (rule enumerate_map_upt)
  have "extractMetric ?fs (Some ''hipHeight'') = Inr (map (\<lambda>k. \<lparr>mp_index = k, mp_time = real k / 30, mp_value = Some (h k)\<rparr>) (map fst (enumerate 0 ?fs)))"
    unfolding extractMetric_def en
    apply (subst map_err_total[where g = "\<lambda>(k, fr). \<lparr>mp_index = k, mp_time = real k / 30, mp_value = Some (h k)\<rparr>"])
     apply (auto simp: hip_frame_def metric_value_hip)
    done
  then show ?thesis by (simp add: map_fst_enumerate)
qed

lemma cos_shift_6: "cos ((real_of_int k + 6 * real_of_int q) * pi / 3) = cos (real_of_int k * pi / 3)"
proof -
  have "(real_of_int k + 6 * real_of_int q) * pi / 3 = real_of_int k * pi / 3 + (2 * pi) * of_int q"
    by (simp add: algebra_simps)
  moreover have "cos (real_of_int k * pi / 3 + (2 * pi) * of_int q) = cos (real_of_int k * pi / 3)"
    unfolding cos_add by (simp only: cos_int_2pin sin_int_2pin mult_1_right mult_zero_right diff_zero)
  ultimately show ?thesis by (simp only:)
qed

lemma sinusoid_mod: "sinusoid k = sinusoid (k mod 6)"
proof -
  have "real_of_int k = real_of_int (k mod 6 + 6 * (k div 6))"
    by (simp only: mod_mult_div_eq)
  also have "\<dots> = real_of_int (k mod 6) + 6 * real_of_int (k div 6)"
    by (simp only: of_int_add of_int_mult of_int_numeral)
  finally have "cos (real_of_int k * pi / 3) = cos (real_of_int (k mod 6) * pi / 3)"
    using cos_shift_6[of "k mod 6" "k div 6"] by (simp only:)
  then show ?thesis unfolding sinusoid_def by (simp only:)
qed

lemma cos_240: "cos (4 * pi / 3) = - (1 / 2)"
proof -
  have "cos (4 * pi / 3) = cos (pi / 3 + pi)" by (rule arg_cong[where f = cos]) simp
  also have "\<dots> = - cos (pi / 3)" by (rule cos_periodic_pi)
  finally show ?thesis by (simp add: cos_60)
qed

lemma cos_300: "cos (5 * pi / 3) = 1 / 2"
proof -
  have "cos (5 * pi / 3) = cos (2 * pi - pi / 3)" by (rule arg_cong[where f = cos]) simp
  also have "\<dots> = cos (pi / 3)" by (rule cos_2pi_minus)
  finally show ?thesis by (simp add: cos_60)
qed

lemma sinusoid_values:
  "sinusoid 0 = 1 / 5" "sinusoid 1 = 7 / 20" "sinusoid 2 = 13 / 20"
  "sinusoid 3 = 4 / 5" "sinusoid 4 = 13 / 20" "sinusoid 5 = 7 / 20"
  by (simp_all add: sinusoid_def cos_60 cos_120 cos_240 cos_300)

lemma sinusoid_table: "sinusoid k = cycle_values ! nat (k mod 6)"
proof -
  have "0 \<le> k mod 6" "k mod 6 < 6" by simp_all
  then have "k mod 6 \<in> {0, 1, 2, 3, 4, 5}" by auto
  then have "sinusoid (k mod 6) = cycle_values ! nat (k mod 6)"
    by (auto simp: sinusoid_values cycle_values_def)
  then show ?thesis using sinusoid_mod[of k] by simp
qed


lemma three_cycles_padded_is_table: "three_cycles_padded = three_cycles_padded_table"
proof -
  have "sinusoid (int k - 3) = cycle_values ! ((k + 3) mod 6)" for k
  proof -
    have "(int k - 3) mod 6 = (int k + 3) mod 6"
      by presburger
    also have "\<dots> = int ((k + 3) mod 6)" by (simp add: zmod_int)
    finally show ?thesis using sinusoid_table[of "int k - 3"] by simp
  qed
  then show ?thesis by (simp add: three_cycles_padded_def three_cycles_padded_table_def)
qed


lemma extract_three_cycles_padded:
  "extractMetric three_cycles_padded_table (Some ''hipHeight'') = Inr (hip_series 3 25)"
  unfolding three_cycles_padded_table_def hip_series_def
  using extractMetric_hip_frames[of "\<lambda>k. cycle_values ! ((k + 3) mod 6)" 25] by simp

lemma repThresholds_squat: "repThresholds ''squat'' = Some (Own squat_config)"
  by (simp add: repThresholds_def js_get_def squat_config_def)

lemma nonzero_three_cycles:
  "length (nonzero_values (hip_series 0 19)) = 19"
  "length (nonzero_values (hip_series 3 25)) = 25"
  by code_simp+

lemma threshold_three_cycles:
  "adaptiveThreshold (Some (cfg_threshold squat_config)) (nonzero_values (hip_series 0 19))
     = Some (9 / 100)"
  "adaptiveThreshold (Some (cfg_threshold squat_config)) (nonzero_values (hip_series 3 25))
     = Some (9 / 100)"
  by code_simp+


lemma extrema_three_cycles_padded:
  "findPeaksAndValleys (hip_series 3 25) (Some (9 / 100)) =
    ([ext 6 (14 / 25), ext 12 (14 / 25), ext 18 (14 / 25)],
     [ext 3 (11 / 25), ext 9 (11 / 25), ext 15 (11 / 25), ext 21 (11 / 25)])"
  by code_simp


lemma reps_three_cycles_padded:
  "identifyReps [ext 6 (14 / 25), ext 12 (14 / 25), ext 18 (14 / 25)]
     [ext 3 (11 / 25), ext 9 (11 / 25), ext 15 (11 / 25), ext 21 (11 / 25)] (Some ''down'')
     three_cycles_padded_table
   = Inr [down_rep 3 6 9, down_rep 9 12 15, down_rep 15 18 21]"
  by code_simp

lemma length_tables: "length three_cycles_table = 19" "length three_cycles_padded_table = 25"
  by (simp_all add: three_cycles_table_def three_cycles_padded_table_def)


lemma countReps_three_cycles_padded_table:
  "countReps three_cycles_padded_table ''squat'' =
     Inr \<lparr>rr_count = 3, repRanges = [down_rep 3 6 9, down_rep 9 12 15, down_rep 15 18 21],
          peakFrames = Some [ext 6 (14 / 25), ext 12 (14 / 25), ext 18 (14 / 25)],
          valleyFrames = Some [ext 3 (11 / 25), ext 9 (11 / 25), ext 15 (11 / 25), ext 21 (11 / 25)],
          metricData = hip_series 3 25\<rparr>"
proof -
  have m: "cfg_metric squat_config = ''hipHeight''" "direction squat_config = ''down''"
    by (simp_all add: squat_config_def)
  show ?thesis
    unfolding countReps_def
    by (simp add: length_tables repThresholds_squat m extract_three_cycles_padded nonzero_three_cycles
        threshold_three_cycles extrema_three_cycles_padded reps_three_cycles_padded
        del: adaptiveThreshold.simps)
qed


section \<open>Repetition ranges are ordered\<close>

lemma map_err_Inr:
  "map_err f xs = Inr ys \<Longrightarrow> length ys = length xs \<and> (\<forall>i < length xs. f (xs ! i) = Inr (ys ! i))"
proof (induction xs arbitrary: ys)
  case Nil
  then show ?case by simp
next
  case (Cons x xs)
  from Cons.prems obtain y ys' where y: "f x = Inr y" and ys': "map_err f xs = Inr ys'"
    and ys: "ys = y # ys'"
    by (auto split: sum.splits)
  from Cons.IH[OF ys'] y ys show ?case
    by (auto simp: nth_Cons split: nat.splits)
qed







lemma length_smoothData [simp]: "length (smoothData xs w) = length xs"
  by (simp add: smoothData_def Let_def)









section \<open>Repetition counter and the operations keyed by an exercise id\<close>

lemma js_get_None:
  "js_get table key = None \<longleftrightarrow> key \<notin> fst ` set table \<and> key \<notin> set object_prototype_names"
  unfolding js_get_def by (auto simp: map_of_eq_None_iff[symmetric] split: option.splits)

lemma unknown_lookups:
  assumes "exerciseId \<notin> set known_ids" "exerciseId \<notin> set object_prototype_names"
  shows "repThresholds exerciseId = None" "analysisMap an exerciseId = None"
    "exercisePatterns exerciseId = None"
  using assms
  by (simp_all add: known_ids_def repThresholds_def analysisMap_def exercisePatterns_def js_get_None)

lemma inherited_lookups:
  assumes "name \<in> set object_prototype_names"
  shows "repThresholds name = Some (Inherited name)" "analysisMap an name = Some (Inherited name)"
    "exercisePatterns name = Some (Inherited name)"
  using assms
  by (auto simp: repThresholds_def analysisMap_def exercisePatterns_def js_get_def
      object_prototype_names_def)

lemma find_None: "x \<notin> f ` set xs \<Longrightarrow> find (\<lambda>e. f e = x) xs = None"
  by (induction xs) auto

text \<open>Every error \<open>validateForm\<close> returns for an id is the error of a check of the catalog.\<close>

lemma validateForm_errors_from_catalog:
  assumes "validateForm catalog (Inl exerciseId) lms angles = Inr es" "e \<in> set es"
  shows "\<exists>ex \<in> set catalog. \<exists>c \<in> set (validationChecks ex). e = check_error c"
proof (cases "getExerciseById catalog exerciseId")
  case None
  with assms show ?thesis by (simp add: validateForm_def)
next
  case (Some ex)
  then have "ex \<in> set catalog"
    by (auto simp: getExerciseById_def find_Some_iff split: if_splits)
  moreover from assms Some have "\<exists>c \<in> set (validationChecks ex). e = check_error c"
    by (auto simp: validateForm_def split: sum.splits bool.splits if_splits)
  ultimately show ?thesis by blast
qed

lemma lunge_unknown: "''lunge'' \<notin> ex_id ` set example_catalog" "''lunge'' \<notin> set known_ids"
  "''lunge'' \<notin> set object_prototype_names"
  by (simp_all add: example_catalog_def known_ids_def object_prototype_names_def)

lemma rep_prop_missing:
  assumes "turn r = ''bottom'' \<or> turn r = ''top''"
  shows "rep_prop r ''startFrame'' = Undefined" "rep_prop r ''endFrame'' = Undefined"
  using assms by (auto simp: rep_prop_def)

lemma repFrames_empty:
  assumes "turn r = ''bottom'' \<or> turn r = ''top''"
  shows "analyzeVideo_repFrames fs r = []"
  by (simp add: analyzeVideo_repFrames_def rep_prop_missing[OF assms] js_slice_def)

lemma rep_at_turn:
  "rep_at peaks valleys dir frames allPoints i = Inr (Some r) \<Longrightarrow> turn r = ''bottom'' \<or> turn r = ''top''"
  by (auto simp: rep_at_def Let_def split: if_splits sum.splits)

lemma identifyReps_turn:
  assumes "identifyReps peaks valleys dir frames = Inr ranges" "r \<in> set ranges"
  shows "turn r = ''bottom'' \<or> turn r = ''top''"
proof -
  let ?A = "sort_key ex_index (peaks @ valleys)"
  show ?thesis
  proof (cases "length ?A < 3")
    case True
    with assms show ?thesis by (simp add: identifyReps_def Let_def)
  next
    case False
    with assms(1) obtain found where
      f: "map_err (rep_at peaks valleys dir frames ?A) [0..<length ?A - 2] = Inr found"
      and rs: "ranges = List.map_filter (\<lambda>r. r) found"
      by (auto simp: identifyReps_def Let_def split: sum.splits)
    from assms(2) rs have "Some r \<in> set found" by (auto simp: List.map_filter_def)
    then obtain i where i: "i < length found" "found ! i = Some r" by (auto simp: in_set_conv_nth)
    from map_err_Inr[OF f] i have "rep_at peaks valleys dir frames ?A ([0..<length ?A - 2] ! i) = Inr (Some r)"
      by auto
    then show ?thesis by (rule rep_at_turn)
  qed
qed

lemma countReps_cases:
  assumes "countReps frames exerciseId = Inr res"
  obtains (zero) "res = zero_result"
  | (run) config m data peaks valleys where
      "extractMetric frames m = Inr data"
      "findPeaksAndValleys data
         (adaptiveThreshold (read_prop cfg_threshold (config :: rep_config member)) (nonzero_values data))
         = (peaks, valleys)"
      "identifyReps peaks valleys (read_prop direction config) frames = Inr (repRanges res)"
proof (cases "length frames < 5 \<or> repThresholds exerciseId = None")
  case True
  then have "res = zero_result" using assms by (auto simp: countReps_def split: if_splits)
  then show thesis by (rule zero)
next
  case False
  then obtain config where c: "repThresholds exerciseId = Some config" and l: "\<not> length frames < 5"
    by auto
  from assms c l obtain primary where
    p: "extractMetric frames (read_prop cfg_metric config) = Inr primary"
    by (auto simp: countReps_def split: sum.splits)
  define fb where "fb \<longleftrightarrow> real (length (nonzero_values primary)) < real (length frames) * 0.5
                      \<and> truthy (read_prop fallbackMetric config)"
  define m where "m = (if fb then read_prop fallbackMetric config else read_prop cfg_metric config)"
  define a where "a = read_prop cfg_threshold config"
  from assms c l p obtain data where d: "extractMetric frames m = Inr data"
    and rest: "(let (peaks, valleys) =
                    findPeaksAndValleys data (adaptiveThreshold a (nonzero_values data)) in
              case identifyReps peaks valleys (read_prop direction config) frames of Inl e \<Rightarrow> Inl e
              | Inr ranges \<Rightarrow>
                  Inr \<lparr>rr_count = length ranges, repRanges = ranges, peakFrames = Some peaks,
                       valleyFrames = Some valleys, metricData = data\<rparr>) = Inr res"
    unfolding countReps_def m_def fb_def a_def by (auto split: sum.splits if_splits)
  obtain peaks valleys where pv:
    "findPeaksAndValleys data (adaptiveThreshold a (nonzero_values data)) = (peaks, valleys)"
    by (cases "findPeaksAndValleys data (adaptiveThreshold a (nonzero_values data))")
  from rest pv have "identifyReps peaks valleys (read_prop direction config) frames = Inr (repRanges res)"
    by (auto split: sum.splits)
  with d pv[unfolded a_def] show thesis by (rule run)
qed

lemma repFrames_always_empty:
  assumes "countReps frames exerciseId = Inr res" "r \<in> set (repRanges res)"
  shows "analyzeVideo_repFrames frames r = []"
  using assms(1)
proof (cases rule: countReps_cases)
  case zero
  with assms(2) show ?thesis by (simp add: zero_result_def)
next
  case (run config m data peaks valleys)
  from identifyReps_turn[OF run(3) assms(2)] show ?thesis by (rule repFrames_empty)
qed

lemma spec_repFrames_example:
  "map (\<lambda>r. map frameIndex (spec_repFrames three_cycles_padded_table r))
       [down_rep 3 6 9, down_rep 9 12 15, down_rep 15 18 21]
   = [[3, 4, 5, 6, 7, 8, 9], [9, 10, 11, 12, 13, 14, 15], [15, 16, 17, 18, 19, 20, 21]]"
  by code_simp

lemma down_rep_turn: "turn (down_rep a b c) = ''bottom''"
  by (simp add: down_rep_def)

lemma analyze_empty_squat:
  "analyzeRepProgression [] ''squat''
     = Inr (Some \<lparr>an_exerciseId = ''squat'', totalDuration = 0, frameCount = 0, smoothness = 100\<rparr>)"
  by (simp add: analyzeRepProgression_def exercisePatterns_def js_get_def
      extractMetricProgression_def calculateSmoothness_def)






text \<open>
  Claim C10. With fewer than five frames \<open>countReps\<close> returns, for every exercise id,
  the zero result (count 0, no repetition range, no metric data) and raises no error.
\<close>

theorem countReps_few_frames:
  "length frames < 5 \<Longrightarrow>
     \<exists>res. countReps frames exerciseId = Inr res
        \<and> rr_count res = 0 \<and> repRanges res = [] \<and> metricData res = []"
  by (simp add: countReps_def zero_result_def)

text \<open>Four frames of the test series, and no frame at all with an unknown id.\<close>

theorem countReps_few_frames_witness:
  "length (take 4 three_cycles_table) < 5
   \<and> (\<exists>res. countReps (take 4 three_cycles_table) ''squat'' = Inr res
        \<and> rr_count res = 0 \<and> repRanges res = [] \<and> metricData res = [])
   \<and> (\<exists>res. countReps [] ''lunge'' = Inr res
        \<and> rr_count res = 0 \<and> repRanges res = [] \<and> metricData res = [])"
  using countReps_few_frames [of "take 4 three_cycles_table" "''squat''"]
    countReps_few_frames [of "[]" "''lunge''"]
  by (simp add: length_tables)

lemma extractMetric_undefined:
  "extractMetric frames None
     = Inr (map (\<lambda>(i, fr). \<lparr>mp_index = i, mp_time = time fr, mp_value = None\<rparr>) (enumerate 0 frames))"
  unfolding extractMetric_def
  by (rule map_err_total) (auto simp: metric_value_def split: option.splits)

lemma no_value_in_nulls:
  "filter (\<lambda>d. mp_value d \<noteq> None)
     (map (\<lambda>(i, fr). \<lparr>mp_index = i, mp_time = time fr, mp_value = None\<rparr>) xs) = []"
  "nonzero_values (map (\<lambda>(i, fr). \<lparr>mp_index = i, mp_time = time fr, mp_value = None\<rparr>) xs) = []"
  by (induction xs) (auto simp: nonzero_values_def List.map_filter_simps)

lemma findPeaksAndValleys_nulls:
  "findPeaksAndValleys
     (map (\<lambda>(i, fr). \<lparr>mp_index = i, mp_time = time fr, mp_value = None\<rparr>) xs) a = ([], [])"
  unfolding findPeaksAndValleys_def no_value_in_nulls by simp

lemma identifyReps_no_extremum: "identifyReps [] [] dir frames = Inr []"
  by (simp add: identifyReps_def)

text \<open>
  An id that names a property inherited from \<^verbatim>\<open>Object.prototype\<close> passes the guards of
  the three table lookups. \<open>countReps\<close> then reads four undefined properties: every
  metric value is null, no extremum is found, and the result has count 0 and no range,
  but two empty extremum lists and one metric point per frame. \<open>analyzeRepProgression\<close>
  raises when it reads \<^verbatim>\<open>pattern.phases.forEach\<close>. \<open>analyzeExercise\<close> calls the inherited
  member: it raises, except for three names.
\<close>

lemma inherited_name_passes_guards:
  assumes "name \<in> set object_prototype_names"
  shows "5 \<le> length frames \<Longrightarrow> countReps frames name =
           Inr \<lparr>rr_count = 0, repRanges = [], peakFrames = Some [], valleyFrames = Some [],
                metricData = map (\<lambda>(i, fr). \<lparr>mp_index = i, mp_time = time fr, mp_value = None\<rparr>)
                               (enumerate 0 frames)\<rparr>"
    and "analyzeRepProgression repFrames name = Inl TypeError"
    and "analyzeExercise an name lms =
           (if name = ''constructor'' \<or> name = ''isPrototypeOf'' then Inr EmptyObject
            else if name = ''toString'' then Inr (StringValue ''[object Undefined]'')
            else Inl TypeError)"
proof -
  show "countReps frames name =
           Inr \<lparr>rr_count = 0, repRanges = [], peakFrames = Some [], valleyFrames = Some [],
                metricData = map (\<lambda>(i, fr). \<lparr>mp_index = i, mp_time = time fr, mp_value = None\<rparr>)
                               (enumerate 0 frames)\<rparr>"
    if "5 \<le> length frames"
    using that
    by (simp add: countReps_def inherited_lookups(1)[OF assms] extractMetric_undefined
        no_value_in_nulls findPeaksAndValleys_nulls identifyReps_no_extremum)
  show "analyzeRepProgression repFrames name = Inl TypeError"
    by (simp add: analyzeRepProgression_def inherited_lookups(3)[OF assms])
  show "analyzeExercise an name lms =
           (if name = ''constructor'' \<or> name = ''isPrototypeOf'' then Inr EmptyObject
            else if name = ''toString'' then Inr (StringValue ''[object Undefined]'')
            else Inl TypeError)"
    by (simp add: analyzeExercise_def inherited_lookups(2)[OF assms] call_prototype_member_def)
qed

text \<open>
  Claim C2, as amended. For an exercise id that is neither in the catalog nor a key of
  the built-in tables, and that is not the name of a property the tables inherit from
  \<^verbatim>\<open>Object.prototype\<close>, none of the four operations raises: \<open>validateForm\<close> returns no
  error, \<open>countReps\<close> the zero result, \<open>analyzeExercise\<close> the empty object and
  \<open>analyzeRepProgression\<close> null.
\<close>

theorem unknown_exercise_returns_empty:
  assumes "exerciseId \<notin> ex_id ` set catalog" "exerciseId \<notin> set known_ids"
    "exerciseId \<notin> set object_prototype_names"
  shows "validateForm catalog (Inl exerciseId) lms angles = Inr []
    \<and> countReps frames exerciseId = Inr zero_result
    \<and> analyzeExercise an exerciseId lms = Inr EmptyObject
    \<and> analyzeRepProgression repFrames exerciseId = Inr None"
  using assms find_None[of exerciseId ex_id catalog]
  by (simp add: validateForm_def getExerciseById_def countReps_def analyzeExercise_def
      analyzeRepProgression_def unknown_lookups)

text \<open>The id \<open>lunge\<close>, against the id \<open>squat\<close> whose check fires.\<close>

theorem unknown_exercise_returns_empty_witness:
  "''lunge'' \<notin> ex_id ` set example_catalog \<and> ''lunge'' \<notin> set known_ids
   \<and> ''lunge'' \<notin> set object_prototype_names
   \<and> validateForm example_catalog (Inl ''lunge'') () () = Inr []
   \<and> countReps three_cycles_table ''lunge'' = Inr zero_result
   \<and> analyzeExercise example_analyzers ''lunge'' () = Inr EmptyObject
   \<and> analyzeRepProgression three_cycles_table ''lunge'' = Inr None
   \<and> validateForm example_catalog (Inl ''squat'') () () = Inr [mk_error ''knee_valgus'' ''high'']"
  using unknown_exercise_returns_empty [OF lunge_unknown, of "()" "()" three_cycles_table
      example_analyzers three_cycles_table] lunge_unknown
  by (simp add: validateForm_def getExerciseById_def example_catalog_def)

text \<open>
  Claim C2 as stated fails: for the unknown id \<open>lunge\<close> each of the four operations
  returns a value; none raises.
\<close>

theorem unknown_exercise_counterexample:
  "''lunge'' \<notin> ex_id ` set example_catalog \<and> ''lunge'' \<notin> set known_ids
   \<and> ''lunge'' \<notin> set object_prototype_names
   \<and> \<not> isl (validateForm example_catalog (Inl ''lunge'') () ())
   \<and> \<not> isl (countReps three_cycles_table ''lunge'')
   \<and> \<not> isl (analyzeExercise example_analyzers ''lunge'' ())
   \<and> \<not> isl (analyzeRepProgression three_cycles_table ''lunge'')"
  by (simp add: example_catalog_def known_ids_def object_prototype_names_def validateForm_def
      getExerciseById_def countReps_def repThresholds_def analyzeExercise_def analysisMap_def
      analyzeRepProgression_def exercisePatterns_def js_get_def length_tables)

text \<open>
  Claim C1 on the padded test series. The three repetitions span frames 3 to 9, 9 to 15
  and 15 to 21, but the frames handed to \<open>analyzeRepProgression\<close> are read with
  \<^verbatim>\<open>repRange.startFrame\<close> and \<^verbatim>\<open>repRange.endFrame\<close>, properties the ranges do not have:
  the slice is empty for each repetition, and each analysis is that of no frame.
\<close>

theorem rep_frames_passed_to_analyzer:
  "ranges_of (countReps three_cycles_padded ''squat'')
     = [down_rep 3 6 9, down_rep 9 12 15, down_rep 15 18 21]
   \<and> map (\<lambda>r. map frameIndex (spec_repFrames three_cycles_padded r))
         (ranges_of (countReps three_cycles_padded ''squat''))
       = [[3, 4, 5, 6, 7, 8, 9], [9, 10, 11, 12, 13, 14, 15], [15, 16, 17, 18, 19, 20, 21]]
   \<and> map (analyzeVideo_repFrames three_cycles_padded)
         (ranges_of (countReps three_cycles_padded ''squat''))
       = [[], [], []]
   \<and> repProgressionAnalyses three_cycles_padded
         (ranges_of (countReps three_cycles_padded ''squat'')) ''squat''
       = Inr [\<lparr>an_exerciseId = ''squat'', totalDuration = 0, frameCount = 0, smoothness = 100\<rparr>,
              \<lparr>an_exerciseId = ''squat'', totalDuration = 0, frameCount = 0, smoothness = 100\<rparr>,
              \<lparr>an_exerciseId = ''squat'', totalDuration = 0, frameCount = 0, smoothness = 100\<rparr>]"
  unfolding three_cycles_padded_is_table countReps_three_cycles_padded_table
  using spec_repFrames_example
  by (simp add: repFrames_empty down_rep_turn repProgressionAnalyses_def
      analyze_empty_squat List.map_filter_def)

end
